theory Spec2Isabelle
  imports Complex_Main
begin

section \<open>Values shared by the handler and the model clients\<close>

text \<open>
  JavaScript values that the code only passes along (schemas, extracted objects, tool
  inputs, previously extracted content) are JSON trees. JavaScript numbers are modelled
  as real numbers: the arithmetic of the handler (\<open>+\<close>, \<open>/\<close>) is read as exact.
\<close>

datatype json =
  JNull
| JBool bool
| JNum real
| JStr string
| JArr "json list"
| JObj "(string \<times> json) list"

section \<open>The extract handler (lib/handlers/extractHandler.ts)\<close>

subsection \<open>Data\<close>

text \<open>The element type of the array returned by \<open>window.getElementBoundingBoxes\<close>.\<close>

record bounding_box =
  "text" :: string
  left :: real
  top :: real
  width :: real
  height :: real

record point =
  x :: real
  y :: real

text \<open>\<open>TextAnnotation\<close>, as the object literal pushed in \<open>extract\<close> builds it.\<close>

record text_annotation =
  "text" :: string
  midpoint :: point
  midpoint_normalized :: point
  width :: real
  height :: real

text \<open>The value of \<open>this.stagehand.page.viewportSize()\<close>.\<close>

record viewport_size =
  width :: real
  height :: real

text \<open>
  The argument of \<open>JSON.stringify\<close> that forms \<open>annotationKey\<close>: the fields
  \<open>text, x, y, width, height\<close> in this order. Two keys are the same string exactly
  when these five components are the same, so the tuple stands for the string. The
  numbers are reals: two sums that differ as reals and round to the same double are
  one key in the code and two here.
\<close>

type_synonym annotation_key = "string \<times> real \<times> real \<times> real \<times> real"

text \<open>
  \<open>selectorMap : Record<number, string[]>\<close>, as the list of its entries in the order in
  which \<open>Object.values\<close> enumerates them.
\<close>

type_synonym selector_map = "(nat \<times> string list) list"

text \<open>What \<open>extract\<close> throws, by the place that threw it.\<close>

datatype error =
  PageEvaluateFailed string
| InferenceFailed string
| ExtractionNotCompleted

text \<open>The argument object of \<open>StagehandExtractHandler.extract\<close>.\<close>

record extract_request =
  instruction :: string
  schema :: json
  content :: "json option"
  modelName :: "string option"
  requestId :: "string option"
  domSettleTimeoutMs :: "nat option"

text \<open>The argument object of the call to \<open>extract\<close> of lib/inference.\<close>

record inference_args =
  inf_instruction :: string
  previouslyExtractedContent :: json
  domElements :: string
  inf_schema :: json
  inf_modelName :: string
  inf_requestId :: "string option"

text \<open>
  The value that call resolves to: \<open>{ metadata: { completed }, ...output }\<close>.
\<close>

record extraction_response =
  completed :: bool
  "output" :: json

text \<open>The calls \<open>extract\<close> makes to its collaborators, in the order it makes them.\<close>

datatype page_event =
  WaitForSettledDom "nat option"
| StartDomDebug
| StoreDOM
| ProcessAllOfDom
| CreateTextBoundingBoxes
| GetElementBoundingBoxes "string option"
| RestoreDOM string
| InferenceExtract inference_args
| CleanupDomDebug

text \<open>The live page: its DOM (as \<open>window.storeDOM\<close> serialises it) and the calls made so far.\<close>

record page =
  dom :: string
  calls :: "page_event list"

text \<open>
  Modelled from the spec: the page-evaluation boundary (\<open>storeDOM\<close>, \<open>restoreDOM\<close>,
  \<open>processAllOfDom\<close>, \<open>createTextBoundingBoxes\<close>, \<open>getElementBoundingBoxes\<close>,
  \<open>viewportSize\<close>), the functions injected into the handler's constructor
  (\<open>waitForSettledDom\<close>, \<open>startDomDebug\<close>, \<open>cleanupDomDebug\<close>), \<open>formatText\<close> of
  lib/utils and \<open>extract\<close> of lib/inference are not part of the files at hand. They are
  parameters of the model. Each of the five \<open>page.evaluate\<close> calls may throw. When it
  does not, \<open>storeDOM()\<close> returns the DOM and \<open>restoreDOM(snapshot)\<close> replaces the DOM
  by the snapshot (section 6 of the spec; a \<open>restoreDOM\<close> that throws is taken to leave
  the DOM as it was); \<open>processAllOfDom\<close> and \<open>createTextBoundingBoxes\<close> may change the
  DOM; \<open>getElementBoundingBoxes\<close> is a read-only query (section 5). The inference call
  may throw. The three injected functions are taken to complete and not to touch the
  DOM that the handler snapshots; they appear as calls only. A thrown exception is the
  \<open>Inl\<close> of its message.
\<close>

record collaborators =
  storeDOM :: "string \<Rightarrow> string + unit"
  restoreDOM :: "string \<Rightarrow> string \<Rightarrow> string + unit"
  processAllOfDom :: "string \<Rightarrow> string + (selector_map \<times> string)"
  createTextBoundingBoxes :: "string \<Rightarrow> string + string"
  getElementBoundingBoxes :: "string \<Rightarrow> string option \<Rightarrow> string + bounding_box list"
  viewportSize :: viewport_size
  formatText :: "text_annotation list \<Rightarrow> string"
  inference_extract :: "inference_args \<Rightarrow> string + extraction_response"
  defaultModelName :: string

subsection \<open>The body of \<open>extract\<close>\<close>

definition called :: "page_event \<Rightarrow> page \<Rightarrow> page" where
  "called e s = s\<lparr>calls := calls s @ [e]\<rparr>"

text \<open>Lines 114-120: the object handed to \<open>JSON.stringify\<close>.\<close>

definition annotationKey :: "bounding_box \<Rightarrow> annotation_key" where
  "annotationKey box =
     (bounding_box.text box,
      left box + bounding_box.width box / 2,
      top box + bounding_box.height box / 2,
      bounding_box.width box,
      bounding_box.height box)"

text \<open>
  Lines 124-136: the object pushed onto \<open>textAnnotations\<close>. In
  \<open>box.top + box.height / viewportSize().height\<close> the division binds tighter than the
  sum, as JavaScript reads it.
\<close>

definition textAnnotation :: "viewport_size \<Rightarrow> bounding_box \<Rightarrow> text_annotation" where
  "textAnnotation vp box =
     \<lparr> text_annotation.text = bounding_box.text box,
       midpoint = \<lparr> x = left box, y = top box + bounding_box.height box \<rparr>,
       midpoint_normalized =
         \<lparr> x = left box / viewport_size.width vp,
           y = top box + bounding_box.height box / viewport_size.height vp \<rparr>,
       text_annotation.width = bounding_box.width box,
       text_annotation.height = bounding_box.height box \<rparr>"

text \<open>
  Lines 113-138, one turn of \<open>for (const box of boundingBoxes)\<close> on the pair
  \<open>(seenAnnotations, textAnnotations)\<close>.
\<close>

definition addBox ::
  "viewport_size \<Rightarrow> annotation_key set \<times> text_annotation list \<Rightarrow> bounding_box
   \<Rightarrow> annotation_key set \<times> text_annotation list" where
  "addBox vp acc box =
     (case acc of (seenAnnotations, textAnnotations) \<Rightarrow>
        if annotationKey box \<notin> seenAnnotations
        then (insert (annotationKey box) seenAnnotations,
              textAnnotations @ [textAnnotation vp box])
        else (seenAnnotations, textAnnotations))"

text \<open>
  Lines 99-139, \<open>for (const xpaths of Object.values(selectorMap))\<close>. \<open>xpaths[0]\<close> of an
  empty array is \<open>undefined\<close> (\<open>None\<close>). A throwing evaluation leaves the loop and the
  function.
\<close>

fun collectAnnotations ::
  "collaborators \<Rightarrow> string list list \<Rightarrow> annotation_key set \<times> text_annotation list
   \<Rightarrow> page \<Rightarrow> (error + annotation_key set \<times> text_annotation list) \<times> page" where
  "collectAnnotations env [] acc s = (Inr acc, s)"
| "collectAnnotations env (xpaths # rest) acc s =
     (let xpath = (case xpaths of [] \<Rightarrow> None | p # _ \<Rightarrow> Some p);
          s' = called (GetElementBoundingBoxes xpath) s
      in case getElementBoundingBoxes env (dom s) xpath of
           Inl m \<Rightarrow> (Inl (PageEvaluateFailed m), s')
         | Inr boundingBoxes \<Rightarrow>
             collectAnnotations env rest
               (foldl (addBox (viewportSize env)) acc boundingBoxes) s')"

definition Object_values :: "selector_map \<Rightarrow> string list list" where
  "Object_values selectorMap = map snd selectorMap"

text \<open>Lines 153-161: the argument of the inference call.\<close>

definition inferenceArgs ::
  "collaborators \<Rightarrow> extract_request \<Rightarrow> string \<Rightarrow> inference_args" where
  "inferenceArgs env req formattedText =
     \<lparr> inf_instruction = instruction req,
       previouslyExtractedContent = (case content req of None \<Rightarrow> JObj [] | Some c \<Rightarrow> c),
       domElements = formattedText,
       inf_schema = schema req,
       inf_modelName =
         (case modelName req of
            None \<Rightarrow> defaultModelName env
          | Some m \<Rightarrow> if m = [] then defaultModelName env else m),
       inf_requestId = requestId req \<rparr>"

text \<open>
  Lines 81-196. The function has no \<open>try\<close>: the first call that throws ends it, and
  the statements after that point do not run. The calls of \<open>this.logger\<close> have no effect
  on the page or on the result and are left out.
\<close>

definition "extract" ::
  "collaborators \<Rightarrow> extract_request \<Rightarrow> page \<Rightarrow> (error + json) \<times> page" where
  "extract env req s0 =
     (let s1 = called (WaitForSettledDom (domSettleTimeoutMs req)) s0;
          s2 = called StartDomDebug s1;
          s3 = called StoreDOM s2 in
      case storeDOM env (dom s2) of
        Inl m \<Rightarrow> (Inl (PageEvaluateFailed m), s3)
      | Inr _ \<Rightarrow>
     (let originalDOM = dom s3;
          s4 = called ProcessAllOfDom s3 in
      case processAllOfDom env (dom s3) of
        Inl m \<Rightarrow> (Inl (PageEvaluateFailed m), s4)
      | Inr (selectorMap, d) \<Rightarrow>
     (let s5 = called CreateTextBoundingBoxes (s4\<lparr>dom := d\<rparr>) in
      case createTextBoundingBoxes env d of
        Inl m \<Rightarrow> (Inl (PageEvaluateFailed m), s5)
      | Inr d' \<Rightarrow>
     (case collectAnnotations env (Object_values selectorMap) ({}, []) (s5\<lparr>dom := d'\<rparr>) of
        (Inl e, s6) \<Rightarrow> (Inl e, s6)
      | (Inr (seenAnnotations, textAnnotations), s6) \<Rightarrow>
     (let s7 = called (RestoreDOM originalDOM) s6 in
      case restoreDOM env originalDOM (dom s6) of
        Inl m \<Rightarrow> (Inl (PageEvaluateFailed m), s7)
      | Inr _ \<Rightarrow>
     (let s8 = s7\<lparr>dom := originalDOM\<rparr>;
          formattedText = formatText env textAnnotations;
          args = inferenceArgs env req formattedText;
          s9 = called (InferenceExtract args) s8 in
      case inference_extract env args of
        Inl m \<Rightarrow> (Inl (InferenceFailed m), s9)
      | Inr extractionResponse \<Rightarrow>
     (let s10 = called CleanupDomDebug s9 in
      if completed extractionResponse
      then (Inr (output extractionResponse), s10)
      else (Inl ExtractionNotCompleted, s10))))))))"

text \<open>The calls made between two states of the page.\<close>

definition callsDuring :: "page \<Rightarrow> page \<Rightarrow> page_event list" where
  "callsDuring s s' = drop (length (calls s)) (calls s')"


section \<open>The model clients (lib/llm/AnthropicClient.ts)\<close>

text \<open>
  The file holds the Anthropic client (lines 1-346) and, after it, the OpenAI client
  (lines 347-598); line numbers are those of the file.
\<close>

subsection \<open>JavaScript helpers\<close>

fun truthy :: "json \<Rightarrow> bool" where
  "truthy JNull = False"
| "truthy (JBool b) = b"
| "truthy (JNum n) = (n \<noteq> 0)"
| "truthy (JStr s) = (s \<noteq> [])"
| "truthy (JArr _) = True"
| "truthy (JObj _) = True"

text \<open>\<open>a?.k\<close> and \<open>a || b\<close> on values that may be \<open>undefined\<close> (\<open>None\<close>).\<close>

definition chain :: "string \<Rightarrow> json option \<Rightarrow> json option" where
  "chain k a = (case a of Some (JObj kvs) \<Rightarrow> map_of kvs k | _ \<Rightarrow> None)"

definition js_or :: "json option \<Rightarrow> json option \<Rightarrow> json option" where
  "js_or a b = (case a of Some j \<Rightarrow> if truthy j then a else b | None \<Rightarrow> b)"

subsection \<open>Options, messages and the cache key\<close>

text \<open>
  \<open>ChatMessage\<close> and \<open>ChatCompletionOptions\<close> are declared in lib/llm/LLMClient.ts, which
  is not among the files at hand; the types below have the fields the two clients read.
  A content part is told apart by \<open>content.type === "text"\<close> (Anthropic) and by
  \<open>"image_url" in content\<close> (OpenAI).
\<close>

datatype role = System | User | Assistant

datatype content_part = TextPart string | ImageUrlPart string

datatype message_content = Text string | Parts "content_part list"

datatype chat_message = ChatMessage (role: role) (content: message_content)

record image =
  buffer :: string
  description :: "string option"

record response_model =
  name :: string
  schema :: json

text \<open>\<open>{ type: "function", function: { name, description, parameters } }\<close>, or another object.\<close>

datatype tool = FunctionTool string "string option" json | OtherTool json

text \<open>
  \<open>options.messages\<close> is a reference to the caller's array: the field holds its address
  in the store of arrays; \<open>{...options}\<close> and the object literal \<open>cacheOptions\<close> copy the
  address, not the array.
\<close>

record chat_completion_options =
  messages :: nat
  temperature :: "real option"
  top_p :: "real option"
  frequency_penalty :: "real option"
  presence_penalty :: "real option"
  image :: "image option"
  response_model :: "response_model option"
  tools :: "tool list option"
  maxTokens :: "nat option"
  requestId :: "string option"

text \<open>\<open>ChatCompletionOptions & { retries?: number }\<close>, the parameter of the Anthropic client.\<close>

record anthropic_options = chat_completion_options +
  retries :: "int option"

text \<open>
  The object literal \<open>cacheOptions\<close>. The Anthropic client writes the keys \<open>model,
  messages, temperature, image, response_model, tools, retries\<close>, the OpenAI client the
  keys \<open>model, messages, temperature, top_p, frequency_penalty, presence_penalty, image,
  response_model\<close>; a key that is not written is \<open>None\<close>, like a key whose value is
  \<open>undefined\<close>. Neither literal has a key for \<open>requestId\<close>. The type parameter is the
  type of \<open>messages\<close>: an address in the literal, the array's elements once serialised.
\<close>

record 'm cache_options =
  co_model :: string
  co_messages :: 'm
  co_temperature :: "real option"
  co_top_p :: "real option"
  co_frequency_penalty :: "real option"
  co_presence_penalty :: "real option"
  co_image :: "image option"
  co_response_model :: "response_model option"
  co_tools :: "tool list option"
  co_retries :: "int option"

type_synonym fingerprint = "chat_message list cache_options"

subsection \<open>Vendor requests and responses\<close>

datatype block_param =
  TextBlockParam string
| ImageBlockParam string string string

text \<open>
  The \<open>content\<close> of a \<open>MessageParam\<close>: a string, or an array whose elements are blocks or
  \<open>undefined\<close> (\<open>None\<close>), which is what an arrow function that returns nothing yields.
\<close>

datatype param_content = StringContent string | BlockContent "block_param option list"

datatype message_param = MessageParam (mp_role: role) (mp_content: param_content)

datatype anthropic_tool =
  AnthropicTool string "string option" "json option" "json option"
| PassedTool json

record anthropic_request =
  req_model :: string
  req_max_tokens :: nat
  req_messages :: "message_param list"
  req_tools :: "anthropic_tool list option"
  req_system :: "message_content option"
  req_temperature :: "real option"

datatype content_block =
  TextBlock string
| ToolUseBlock string string "(string \<times> json) list"

record anthropic_response =
  res_id :: string
  res_model :: string
  res_content :: "content_block list"
  res_stop_reason :: "string option"
  input_tokens :: nat
  output_tokens :: nat

text \<open>\<open>transformedResponse\<close>; its \<open>choices\<close> array has the one element written here.\<close>

record tool_call =
  tc_id :: string
  tc_name :: string
  tc_arguments :: json

record transformed_response =
  tr_id :: string
  tr_created :: int
  tr_model :: string
  tr_content :: "string option"
  tr_tool_calls :: "tool_call list"
  tr_finish_reason :: "string option"
  prompt_tokens :: nat
  completion_tokens :: nat
  total_tokens :: nat

text \<open>The body of \<open>chat.completions.create\<close> and the part of its result that is read.\<close>

record openai_body =
  body_model :: string
  body_messages :: "chat_message list"
  body_temperature :: "real option"
  body_top_p :: "real option"
  body_frequency_penalty :: "real option"
  body_presence_penalty :: "real option"
  body_maxTokens :: "nat option"
  body_response_format :: "json option"
  body_stream :: bool
  body_tools :: "tool list option"

record chat_completion =
  cc_id :: string
  cc_choices :: "string option list"

text \<open>
  What \<open>createChatCompletion\<close> resolves to (\<open>Promise<any>\<close>): the structured object, or
  the completion of either client. Each is a JavaScript object, hence truthy.
\<close>

datatype completion =
  Structured json
| AnthropicCompletion transformed_response
| OpenAICompletion chat_completion

datatype client_error =
  VendorFailed string
| NoToolUseInResponse
| NoChoices
| JSONParseFailed string

subsection \<open>The world the clients act on\<close>

datatype client_event =
  CacheGet fingerprint
| CacheSet fingerprint completion
| AnthropicCreate anthropic_request
| OpenAICreate openai_body

record world =
  arrays :: "nat \<Rightarrow> chat_message list"
  cache :: "fingerprint \<rightharpoonup> completion"
  trace :: "client_event list"

text \<open>
  The JavaScript runtime and the libraries: \<open>Date.now()\<close> (at a point of the trace),
  \<open>zodToJsonSchema\<close>, \<open>zodResponseFormat\<close>, \<open>Buffer.toString("base64")\<close>, \<open>JSON.parse\<close>
  (which may throw) and the object spread \<open>{...v}\<close>.
\<close>

record runtime =
  Date_now :: "nat \<Rightarrow> int"
  zodToJsonSchema :: "json \<Rightarrow> json"
  zodResponseFormat :: "json \<Rightarrow> string \<Rightarrow> json"
  toString_base64 :: "string \<Rightarrow> string"
  JSON_parse :: "string option \<Rightarrow> string + json"
  object_spread :: "json \<Rightarrow> json"

text \<open>
  The fields of the two client objects. \<open>this.client\<close> is the vendor's SDK: its answer
  to a request may differ from call to call, so it is a function of the point of the
  trace at which the call is made; \<open>Inl\<close> is a thrown error.
\<close>

record anthropic_client =
  a_modelName :: string
  a_enableCaching :: bool
  messages_create :: "nat \<Rightarrow> anthropic_request \<Rightarrow> string + anthropic_response"

record openai_client =
  o_modelName :: string
  o_enableCaching :: bool
  chat_completions_create :: "nat \<Rightarrow> openai_body \<Rightarrow> string + chat_completion"

text \<open>
  Modelled from the spec: \<open>LLMCache\<close> (lib/cache/LLMCache.ts) is not among the files at
  hand. By section 4.4 it is a key-value store from the fingerprint, the canonical
  serialisation of the fingerprint inputs at the time of the call (the array behind
  \<open>messages\<close> is read then), to the last value written; \<open>requestId\<close> is accepted for tracing only. \<open>get\<close> of a missing key is \<open>null\<close>
  (\<open>None\<close>). The clients do not await \<open>cache.set\<close>; the write is taken to happen where
  the call stands. The calls of \<open>this.logger\<close> are left out.
\<close>

definition serialise :: "(nat \<Rightarrow> chat_message list) \<Rightarrow> nat cache_options \<Rightarrow> fingerprint" where
  "serialise store co =
     \<lparr> co_model = co_model co,
       co_messages = store (co_messages co),
       co_temperature = co_temperature co,
       co_top_p = co_top_p co,
       co_frequency_penalty = co_frequency_penalty co,
       co_presence_penalty = co_presence_penalty co,
       co_image = co_image co,
       co_response_model = co_response_model co,
       co_tools = co_tools co,
       co_retries = co_retries co \<rparr>"

text \<open>
  Modelled from the spec: \<open>LLMCache.get(fingerprintInputs, requestId)\<close>, the entry of the
  fingerprint or \<open>null\<close>; the read is recorded in the trace.
\<close>

definition cache_get ::
  "nat cache_options \<Rightarrow> string option \<Rightarrow> world \<Rightarrow> completion option \<times> world" where
  "cache_get co rid w =
     (let k = serialise (arrays w) co
      in (cache w k, w\<lparr>trace := trace w @ [CacheGet k]\<rparr>))"

text \<open>
  Modelled from the spec: \<open>LLMCache.set(fingerprintInputs, value, requestId)\<close>; a later
  write for the same fingerprint replaces the entry.
\<close>

definition cache_set ::
  "nat cache_options \<Rightarrow> completion \<Rightarrow> string option \<Rightarrow> world \<Rightarrow> world" where
  "cache_set co v rid w =
     (let k = serialise (arrays w) co
      in w\<lparr>cache := (cache w)(k \<mapsto> v), trace := trace w @ [CacheSet k v]\<rparr>)"


subsection \<open>\<open>AnthropicClient.createChatCompletion\<close>\<close>

text \<open>Lines 47-55.\<close>

definition anthropic_cacheOptions ::
  "anthropic_client \<Rightarrow> anthropic_options \<Rightarrow> nat cache_options" where
  "anthropic_cacheOptions this options =
     \<lparr> co_model = a_modelName this,
       co_messages = messages options,
       co_temperature = temperature options,
       co_top_p = None,
       co_frequency_penalty = None,
       co_presence_penalty = None,
       co_image = image options,
       co_response_model = response_model options,
       co_tools = tools options,
       co_retries = retries options \<rparr>"

text \<open>Lines 103-109: the first system message none of whose parts is an image.\<close>

definition systemMessage :: "chat_message list \<Rightarrow> chat_message option" where
  "systemMessage msgs =
     find (\<lambda>msg. role msg = System \<and>
             (case chat_message.content msg of
                Text _ \<Rightarrow> True
              | Parts ps \<Rightarrow> list_all (\<lambda>c. case c of ImageUrlPart _ \<Rightarrow> False | TextPart _ \<Rightarrow> True) ps))
       msgs"

text \<open>Lines 110-112.\<close>

definition userMessages :: "chat_message list \<Rightarrow> chat_message list" where
  "userMessages msgs = filter (\<lambda>msg. role msg \<noteq> System) msgs"

text \<open>Lines 123-129: the arrow function returns a text block for a text part and nothing otherwise.\<close>

definition formatPart :: "content_part \<Rightarrow> block_param option" where
  "formatPart c = (case c of TextPart t \<Rightarrow> Some (TextBlockParam t) | ImageUrlPart _ \<Rightarrow> None)"

text \<open>Lines 114-132.\<close>

definition formatMessage :: "chat_message \<Rightarrow> message_param" where
  "formatMessage msg =
     (case chat_message.content msg of
        Text s \<Rightarrow> MessageParam (role msg) (StringContent s)
      | Parts ps \<Rightarrow> MessageParam (role msg) (BlockContent (map formatPart ps)))"

text \<open>Lines 135-157; an empty description is falsy.\<close>

definition screenshotMessage :: "runtime \<Rightarrow> image \<Rightarrow> message_param" where
  "screenshotMessage rt img =
     MessageParam User
       (BlockContent
          (Some (ImageBlockParam ''base64'' ''image/jpeg'' (toString_base64 rt (buffer img)))
           # (case description img of
                Some d \<Rightarrow> if d \<noteq> [] then [Some (TextBlockParam d)] else []
              | None \<Rightarrow> [])))"

text \<open>Lines 114-160.\<close>

definition formattedMessages ::
  "runtime \<Rightarrow> anthropic_options \<Rightarrow> chat_message list \<Rightarrow> message_param list" where
  "formattedMessages rt options msgs =
     map formatMessage (userMessages msgs)
     @ (case image options of Some img \<Rightarrow> [screenshotMessage rt img] | None \<Rightarrow> [])"

text \<open>Lines 163-176.\<close>

definition transformTool :: "tool \<Rightarrow> anthropic_tool" where
  "transformTool t =
     (case t of
        FunctionTool nm descr parameters \<Rightarrow>
          AnthropicTool nm descr (chain ''properties'' (Some parameters))
            (chain ''required'' (Some parameters))
      | OtherTool j \<Rightarrow> PassedTool j)"

text \<open>Lines 178-203.\<close>

definition toolDefinition :: "runtime \<Rightarrow> response_model \<Rightarrow> anthropic_tool" where
  "toolDefinition rt rm =
     (let jsonSchema = Some (zodToJsonSchema rt (schema rm));
          mySchema = chain ''MySchema'' (chain ''definitions'' jsonSchema);
          schemaProperties = js_or (chain ''properties'' mySchema) (chain ''properties'' jsonSchema);
          schemaRequired = js_or (chain ''required'' mySchema) (chain ''required'' jsonSchema)
      in AnthropicTool ''print_extracted_data''
           (Some ''Prints the extracted data based on the provided schema.'')
           schemaProperties schemaRequired)"

text \<open>Lines 163-208.\<close>

definition anthropicTools :: "runtime \<Rightarrow> anthropic_options \<Rightarrow> anthropic_tool list option" where
  "anthropicTools rt options =
     (let transformed = map_option (map transformTool) (tools options)
      in case response_model options of
           Some rm \<Rightarrow>
             Some ((case transformed of Some ts \<Rightarrow> ts | None \<Rightarrow> []) @ [toolDefinition rt rm])
         | None \<Rightarrow> transformed)"

text \<open>Lines 210-219: the argument of \<open>this.client.messages.create\<close>.\<close>

definition anthropic_request_of ::
  "runtime \<Rightarrow> anthropic_client \<Rightarrow> anthropic_options \<Rightarrow> chat_message list \<Rightarrow> anthropic_request" where
  "anthropic_request_of rt this options msgs =
     \<lparr> req_model = a_modelName this,
       req_max_tokens =
         (case maxTokens options of Some n \<Rightarrow> if n \<noteq> 0 then n else 1500 | None \<Rightarrow> 1500),
       req_messages = formattedMessages rt options msgs,
       req_tools = anthropicTools rt options,
       req_system = map_option chat_message.content (systemMessage msgs),
       req_temperature = temperature options \<rparr>"

definition isToolUse :: "content_block \<Rightarrow> bool" where
  "isToolUse c = (case c of ToolUseBlock _ _ _ \<Rightarrow> True | TextBlock _ \<Rightarrow> False)"

text \<open>
  Lines 238-270. \<open>arguments\<close> is \<open>JSON.stringify(toolUse.input)\<close>; the object stands for
  its serialisation.
\<close>

definition transformResponse :: "int \<Rightarrow> anthropic_response \<Rightarrow> transformed_response" where
  "transformResponse now response =
     \<lparr> tr_id = res_id response,
       tr_created = now,
       tr_model = res_model response,
       tr_content =
         (case find (\<lambda>c. case c of TextBlock _ \<Rightarrow> True | ToolUseBlock _ _ _ \<Rightarrow> False)
                 (res_content response) of
            Some (TextBlock s) \<Rightarrow> if s \<noteq> [] then Some s else None
          | _ \<Rightarrow> None),
       tr_tool_calls =
         concat (map (\<lambda>c. case c of
                       ToolUseBlock i nm inp \<Rightarrow>
                         [\<lparr> tc_id = i, tc_name = nm, tc_arguments = JObj inp \<rparr>]
                     | TextBlock _ \<Rightarrow> [])
                   (res_content response)),
       tr_finish_reason = res_stop_reason response,
       prompt_tokens = input_tokens response,
       completion_tokens = output_tokens response,
       total_tokens = input_tokens response + output_tokens response \<rparr>"

text \<open>
  Line 298, \<open>!options.retries || options.retries < 5\<close>: \<open>undefined\<close> and \<open>0\<close> are falsy,
  and \<open>undefined < 5\<close> is false.
\<close>

definition mayRetry :: "int option \<Rightarrow> bool" where
  "mayRetry r =
     ((case r of None \<Rightarrow> True | Some n \<Rightarrow> n = 0) \<or> (case r of None \<Rightarrow> False | Some n \<Rightarrow> n < 5))"

text \<open>Line 301, \<open>(options.retries ?? 0) + 1\<close>.\<close>

definition nextRetries :: "int option \<Rightarrow> int" where
  "nextRetries r = (case r of None \<Rightarrow> 0 | Some n \<Rightarrow> n) + 1"

text \<open>
  Lines 30-345. The recursive call of line 299 receives a copy of \<open>options\<close> with the new
  \<open>retries\<close>, and the world as the failed attempt left it.
\<close>

function AnthropicClient_createChatCompletion ::
  "runtime \<Rightarrow> anthropic_client \<Rightarrow> anthropic_options \<Rightarrow> world
   \<Rightarrow> (client_error + completion) \<times> world" where
  "AnthropicClient_createChatCompletion rt this options w0 =
     (let cacheOptions = anthropic_cacheOptions this options;
          (cachedResponse, w1) =
            (if a_enableCaching this then cache_get cacheOptions (requestId options) w0
             else (None, w0))
      in case cachedResponse of
           Some v \<Rightarrow> (Inr v, w1)
         | None \<Rightarrow>
     (let request = anthropic_request_of rt this options (arrays w1 (messages options));
          w2 = w1\<lparr>trace := trace w1 @ [AnthropicCreate request]\<rparr>
      in case messages_create this (length (trace w1)) request of
           Inl m \<Rightarrow> (Inl (VendorFailed m), w2)
         | Inr response \<Rightarrow>
     (let transformedResponse = transformResponse (Date_now rt (length (trace w2))) response
      in case response_model options of
           Some rm \<Rightarrow>
             (case find isToolUse (res_content response) of
                Some (ToolUseBlock i nm inp) \<Rightarrow>
                  (let result = Structured (JObj inp)
                   in (Inr result,
                       if a_enableCaching this
                       then cache_set cacheOptions result (requestId options) w2 else w2))
              | _ \<Rightarrow>
                  if mayRetry (retries options)
                  then AnthropicClient_createChatCompletion rt this
                         (options\<lparr>retries := Some (nextRetries (retries options))\<rparr>) w2
                  else (Inl NoToolUseInResponse, w2))
         | None \<Rightarrow>
             (Inr (AnthropicCompletion transformedResponse),
              if a_enableCaching this
              then cache_set cacheOptions (AnthropicCompletion transformedResponse)
                     (requestId options) w2
              else w2))))"
  by pat_completeness auto
termination
  by (relation "measure (\<lambda>(rt, this, options, w).
        nat (6 - (case retries options of None \<Rightarrow> 0 | Some n \<Rightarrow> n)))")
     (auto simp: mayRetry_def nextRetries_def split: option.splits)


subsection \<open>\<open>OpenAIClient.createChatCompletion\<close>\<close>

text \<open>Lines 403-412.\<close>

definition openai_cacheOptions ::
  "openai_client \<Rightarrow> 'a chat_completion_options_scheme \<Rightarrow> nat cache_options" where
  "openai_cacheOptions this options =
     \<lparr> co_model = o_modelName this,
       co_messages = messages options,
       co_temperature = temperature options,
       co_top_p = top_p options,
       co_frequency_penalty = frequency_penalty options,
       co_presence_penalty = presence_penalty options,
       co_image = image options,
       co_response_model = response_model options,
       co_tools = None,
       co_retries = None \<rparr>"

text \<open>Lines 453-466.\<close>

definition openai_screenshotMessage :: "runtime \<Rightarrow> image \<Rightarrow> chat_message" where
  "openai_screenshotMessage rt img =
     ChatMessage User
       (Parts
          (ImageUrlPart (''data:image/jpeg;base64,'' @ toString_base64 rt (buffer img))
           # (case description img of
                Some d \<Rightarrow> if d \<noteq> [] then [TextPart d] else []
              | None \<Rightarrow> [])))"

text \<open>Lines 499-525.\<close>

definition openai_formatMessage :: "chat_message \<Rightarrow> chat_message" where
  "openai_formatMessage message =
     (case chat_message.content message of
        Parts ps \<Rightarrow>
          ChatMessage (role message)
            (Parts (map (\<lambda>c. case c of ImageUrlPart u \<Rightarrow> ImageUrlPart u
                                      | TextPart s \<Rightarrow> TextPart s) ps))
      | Text s \<Rightarrow> message)"

text \<open>Line 533, \<open>"function" in tool\<close>.\<close>

definition hasFunction :: "tool \<Rightarrow> bool" where
  "hasFunction t =
     (case t of
        FunctionTool _ _ _ \<Rightarrow> True
      | OtherTool (JObj kvs) \<Rightarrow> ''function'' \<in> fst ` set kvs
      | OtherTool _ \<Rightarrow> False)"

text \<open>
  Lines 471-534: \<open>body\<close>, that is \<open>openAiOptions\<close> without \<open>requestId\<close> and \<open>image\<close>, with
  the formatted messages, the response format and the tools that are functions.
\<close>

definition openai_body_of ::
  "runtime \<Rightarrow> openai_client \<Rightarrow> 'a chat_completion_options_scheme \<Rightarrow> chat_message list
   \<Rightarrow> openai_body" where
  "openai_body_of rt this options msgs =
     \<lparr> body_model = o_modelName this,
       body_messages = map openai_formatMessage msgs,
       body_temperature = temperature options,
       body_top_p = top_p options,
       body_frequency_penalty = frequency_penalty options,
       body_presence_penalty = presence_penalty options,
       body_maxTokens = maxTokens options,
       body_response_format =
         map_option (\<lambda>rm. zodResponseFormat rt (schema rm) (name rm)) (response_model options),
       body_stream = False,
       body_tools = map_option (filter hasFunction) (tools options) \<rparr>"

text \<open>
  Lines 383-597. \<open>options.messages.push(screenshotMessage)\<close> writes to the caller's array;
  \<open>cacheOptions.messages\<close> is the same array, so the key of the later \<open>cache.set\<close> is
  serialised from the array as it is then.
\<close>

definition OpenAIClient_createChatCompletion ::
  "runtime \<Rightarrow> openai_client \<Rightarrow> 'a chat_completion_options_scheme \<Rightarrow> world
   \<Rightarrow> (client_error + completion) \<times> world" where
  "OpenAIClient_createChatCompletion rt this options w0 =
     (let cacheOptions = openai_cacheOptions this options;
          (cachedResponse, w1) =
            (if o_enableCaching this then cache_get cacheOptions (requestId options) w0
             else (None, w0))
      in case cachedResponse of
           Some v \<Rightarrow> (Inr v, w1)
         | None \<Rightarrow>
     (let w2 =
            (case image options of
               Some img \<Rightarrow>
                 w1\<lparr>arrays := (arrays w1)
                        (messages options :=
                           arrays w1 (messages options) @ [openai_screenshotMessage rt img])\<rparr>
             | None \<Rightarrow> w1);
          body = openai_body_of rt this options (arrays w2 (messages options));
          w3 = w2\<lparr>trace := trace w2 @ [OpenAICreate body]\<rparr>
      in case chat_completions_create this (length (trace w2)) body of
           Inl m \<Rightarrow> (Inl (VendorFailed m), w3)
         | Inr response \<Rightarrow>
     (case response_model options of
        Some rm \<Rightarrow>
          (case cc_choices response of
             [] \<Rightarrow> (Inl NoChoices, w3)
           | extractedData # _ \<Rightarrow>
               (case JSON_parse rt extractedData of
                  Inl m \<Rightarrow> (Inl (JSONParseFailed m), w3)
                | Inr parsedData \<Rightarrow>
                    (Inr (Structured (object_spread rt parsedData)),
                     if o_enableCaching this
                     then cache_set cacheOptions (Structured (object_spread rt parsedData))
                            (requestId options) w3
                     else w3)))
      | None \<Rightarrow>
          (Inr (OpenAICompletion response),
           if o_enableCaching this
           then cache_set cacheOptions (OpenAICompletion response) (requestId options) w3
           else w3))))"

text \<open>The events added to the trace between two worlds.\<close>

definition eventsDuring :: "world \<Rightarrow> world \<Rightarrow> client_event list" where
  "eventsDuring w w' = drop (length (trace w)) (trace w')"

definition isVendorCall :: "client_event \<Rightarrow> bool" where
  "isVendorCall e = (case e of AnthropicCreate _ \<Rightarrow> True | OpenAICreate _ \<Rightarrow> True | _ \<Rightarrow> False)"

definition lookedUp :: "client_event list \<Rightarrow> fingerprint list" where
  "lookedUp evs = concat (map (\<lambda>e. case e of CacheGet k \<Rightarrow> [k] | _ \<Rightarrow> []) evs)"

definition isCacheSet :: "client_event \<Rightarrow> bool" where
  "isCacheSet e = (case e of CacheSet _ _ \<Rightarrow> True | _ \<Rightarrow> False)"


section \<open>Notions used to state the properties\<close>

subsection \<open>First occurrences\<close>

text \<open>
  The boxes of a sequence whose key does not occur at an earlier position of the
  sequence, in the order of the sequence: what "first occurrence" means in the spec,
  for any function \<open>key\<close> from boxes to keys.
\<close>

definition firstOccurrences :: "(bounding_box \<Rightarrow> 'k) \<Rightarrow> bounding_box list \<Rightarrow> bounding_box list" where
  "firstOccurrences key boxes =
     map snd (filter (\<lambda>(i, box). key box \<notin> key ` set (take i boxes)) (enumerate 0 boxes))"

text \<open>
  The boxes one extraction processes: the arrays that \<open>getElementBoundingBoxes\<close> returns
  for the first path of each selector-map entry, one after the other.
\<close>

definition processedBoxes ::
  "collaborators \<Rightarrow> string \<Rightarrow> string list list \<Rightarrow> bounding_box list" where
  "processedBoxes env d xs =
     concat (map (\<lambda>xpaths.
        case getElementBoundingBoxes env d (case xpaths of [] \<Rightarrow> None | p # _ \<Rightarrow> Some p) of
          Inl _ \<Rightarrow> [] | Inr boundingBoxes \<Rightarrow> boundingBoxes) xs)"

subsection \<open>A page with a star count\<close>

definition github_box :: bounding_box where
  "github_box = \<lparr> bounding_box.text = ''Stars: 1000'', left = 10, top = 20,
                   bounding_box.width = 80, bounding_box.height = 20 \<rparr>"

definition forks_box :: bounding_box where
  "forks_box = \<lparr> bounding_box.text = ''Forks: 12'', left = 10, top = 60,
                  bounding_box.width = 70, bounding_box.height = 20 \<rparr>"

text \<open>The star box again, with the same text and size, further to the right.\<close>

definition moved_box :: bounding_box where
  "moved_box = \<lparr> bounding_box.text = ''Stars: 1000'', left = 510, top = 20,
                  bounding_box.width = 80, bounding_box.height = 20 \<rparr>"

definition github_viewport :: viewport_size where
  "github_viewport = \<lparr> viewport_size.width = 1000, viewport_size.height = 500 \<rparr>"

definition github_request :: extract_request where
  "github_request =
     \<lparr> instruction = ''extract the number of stars'',
       extract_request.schema = JObj [(''stars'', JStr ''number'')],
       content = None, modelName = None, extract_request.requestId = None,
       domSettleTimeoutMs = None \<rparr>"

definition github_page :: page where
  "github_page = \<lparr> dom = ''<body><p>Stars: 1000</p></body>'', calls = [] \<rparr>"

text \<open>
  Collaborators for that page: the selector map has two entries, the first element
  reports the star box twice and the fork box, the second one the star box and the
  moved star box; the inference call ends as \<open>answer\<close> says.
\<close>

definition github_env :: "string + extraction_response \<Rightarrow> collaborators" where
  "github_env answer =
     \<lparr> storeDOM = (\<lambda>d. Inr ()),
       restoreDOM = (\<lambda>snapshot d. Inr ()),
       processAllOfDom = (\<lambda>d. Inr ([(0, [''/html/body'']), (1, [''/html/body/p''])], d)),
       createTextBoundingBoxes = (\<lambda>d. Inr (d @ ''<span class=box></span>'')),
       getElementBoundingBoxes =
         (\<lambda>d p. Inr (if p = Some ''/html/body'' then [github_box, forks_box, github_box]
                      else [github_box, moved_box])),
       viewportSize = github_viewport,
       formatText = (\<lambda>anns. concat (map text_annotation.text anns)),
       inference_extract = (\<lambda>a. answer),
       defaultModelName = ''gpt-4o'' \<rparr>"

definition stars_response :: "bool \<Rightarrow> extraction_response" where
  "stars_response done = \<lparr> completed = done, output = JObj [(''stars'', JNum 1000)] \<rparr>"

text \<open>The same page when the evaluation of \<open>getElementBoundingBoxes\<close> throws.\<close>

definition throwing_env :: collaborators where
  "throwing_env = (github_env (Inr (stars_response True)))
     \<lparr> getElementBoundingBoxes := (\<lambda>d p. Inl ''Execution context was destroyed'') \<rparr>"

text \<open>The same page when the evaluation of \<open>restoreDOM\<close> throws.\<close>

definition unrestorable_env :: collaborators where
  "unrestorable_env = (github_env (Inr (stars_response True)))
     \<lparr> restoreDOM := (\<lambda>snapshot d. Inl ''Target closed'') \<rparr>"

text \<open>The argument of the inference call and the calls of a run that reaches it.\<close>

definition github_args :: inference_args where
  "github_args =
     \<lparr> inf_instruction = ''extract the number of stars'',
       previouslyExtractedContent = JObj [],
       domElements = ''Stars: 1000Forks: 12Stars: 1000'',
       inf_schema = JObj [(''stars'', JStr ''number'')],
       inf_modelName = ''gpt-4o'',
       inf_requestId = None \<rparr>"

definition github_calls :: "page_event list" where
  "github_calls =
     [WaitForSettledDom None, StartDomDebug, StoreDOM, ProcessAllOfDom,
      CreateTextBoundingBoxes, GetElementBoundingBoxes (Some ''/html/body''),
      GetElementBoundingBoxes (Some ''/html/body/p''),
      RestoreDOM ''<body><p>Stars: 1000</p></body>'',
      InferenceExtract github_args]"

subsection \<open>The parts of one invocation of the Anthropic client\<close>

text \<open>The fingerprint under which an invocation reads and writes the cache.\<close>

definition a_key :: "anthropic_client \<Rightarrow> anthropic_options \<Rightarrow> world \<Rightarrow> fingerprint" where
  "a_key this options w = serialise (arrays w) (anthropic_cacheOptions this options)"

text \<open>The world after the cache read of lines 57-100 (no read when caching is off).\<close>

definition a_looked :: "anthropic_client \<Rightarrow> anthropic_options \<Rightarrow> world \<Rightarrow> world" where
  "a_looked this options w =
     (if a_enableCaching this then w\<lparr>trace := trace w @ [CacheGet (a_key this options w)]\<rparr> else w)"

text \<open>The request an invocation sends when it is not served from the cache.\<close>

definition a_request :: "runtime \<Rightarrow> anthropic_client \<Rightarrow> anthropic_options \<Rightarrow> world \<Rightarrow> anthropic_request" where
  "a_request rt this options w = anthropic_request_of rt this options (arrays w (messages options))"

text \<open>The world after the vendor call of line 210.\<close>

definition a_sent :: "runtime \<Rightarrow> anthropic_client \<Rightarrow> anthropic_options \<Rightarrow> world \<Rightarrow> world" where
  "a_sent rt this options w =
     (a_looked this options w)\<lparr>trace := trace (a_looked this options w) @ [AnthropicCreate (a_request rt this options w)]\<rparr>"

text \<open>The vendor's answer to that call.\<close>

definition a_answer ::
  "runtime \<Rightarrow> anthropic_client \<Rightarrow> anthropic_options \<Rightarrow> world \<Rightarrow> string + anthropic_response" where
  "a_answer rt this options w =
     messages_create this (length (trace (a_looked this options w))) (a_request rt this options w)"

text \<open>The world after the \<open>cache.set\<close> of lines 293 and 322 (no write when caching is off).\<close>

definition a_stored ::
  "runtime \<Rightarrow> anthropic_client \<Rightarrow> anthropic_options \<Rightarrow> world \<Rightarrow> completion \<Rightarrow> world" where
  "a_stored rt this options w v =
     (if a_enableCaching this
      then (a_sent rt this options w)
             \<lparr>cache := (cache w)(a_key this options w \<mapsto> v),
              trace := trace (a_sent rt this options w) @ [CacheSet (a_key this options w) v]\<rparr>
      else a_sent rt this options w)"

text \<open>The cache read does not end the invocation.\<close>

definition a_miss :: "anthropic_client \<Rightarrow> anthropic_options \<Rightarrow> world \<Rightarrow> bool" where
  "a_miss this options w = (a_enableCaching this \<longrightarrow> cache w (a_key this options w) = None)"

text \<open>\<open>options.retries ?? 0\<close>.\<close>

definition eff :: "int option \<Rightarrow> int" where
  "eff r = (case r of None \<Rightarrow> 0 | Some n \<Rightarrow> n)"

text \<open>The events of an invocation up to its vendor call.\<close>

definition a_events :: "runtime \<Rightarrow> anthropic_client \<Rightarrow> anthropic_options \<Rightarrow> world \<Rightarrow> client_event list" where
  "a_events rt this options w =
     (if a_enableCaching this then [CacheGet (a_key this options w)] else [])
     @ [AnthropicCreate (a_request rt this options w)]"

text \<open>The number of vendor calls made between two worlds: the attempts.\<close>

definition vendorCalls :: "world \<Rightarrow> world \<Rightarrow> nat" where
  "vendorCalls w w' = length (filter isVendorCall (eventsDuring w w'))"

text \<open>No attempt of the logical call finds its fingerprint in the cache.\<close>

definition neverCached :: "anthropic_client \<Rightarrow> anthropic_options \<Rightarrow> world \<Rightarrow> bool" where
  "neverCached this options w =
     (a_enableCaching this \<longrightarrow> (\<forall>r. cache w (a_key this (options\<lparr>retries := r\<rparr>) w) = None))"

text \<open>The vendor answers every request, and no answer has a \<open>tool_use\<close> block.\<close>

definition neverUsesTool :: "anthropic_client \<Rightarrow> bool" where
  "neverUsesTool this =
     (\<forall>n request. \<exists>response. messages_create this n request = Inr response \<and>
                     find isToolUse (res_content response) = None)"

text \<open>The values of \<open>retries\<close> of the successive attempts of a call that starts with \<open>r\<close>.\<close>

definition attemptRetries :: "int option \<Rightarrow> int option list" where
  "attemptRetries r = r # map Some [eff r + 1 .. 5]"

subsection \<open>Images in a request; the OpenAI client's push\<close>

text \<open>A formatted message has an image block.\<close>

definition carriesImage :: "message_param \<Rightarrow> bool" where
  "carriesImage m =
     (case mp_content m of
        StringContent _ \<Rightarrow> False
      | BlockContent bs \<Rightarrow>
          list_ex (\<lambda>b. case b of Some (ImageBlockParam _ _ _) \<Rightarrow> True | _ \<Rightarrow> False) bs)"

text \<open>The turn appended for \<open>options.image\<close> (lines 134-160), if any.\<close>

definition attachment :: "runtime \<Rightarrow> image option \<Rightarrow> message_param list" where
  "attachment rt img = (case img of Some i \<Rightarrow> [screenshotMessage rt i] | None \<Rightarrow> [])"

text \<open>The cache read of the OpenAI client returns an entry.\<close>

definition o_hit :: "openai_client \<Rightarrow> 'a chat_completion_options_scheme \<Rightarrow> world \<Rightarrow> bool" where
  "o_hit this options w =
     (o_enableCaching this \<and>
      cache w (serialise (arrays w) (openai_cacheOptions this options)) \<noteq> None)"

text \<open>The world after lines 452-469.\<close>

definition o_pushed :: "runtime \<Rightarrow> 'a chat_completion_options_scheme \<Rightarrow> world \<Rightarrow> world" where
  "o_pushed rt options w =
     (case image options of
        Some img \<Rightarrow>
          w\<lparr>arrays := (arrays w)
                 (messages options :=
                    arrays w (messages options) @ [openai_screenshotMessage rt img])\<rparr>
      | None \<Rightarrow> w)"

subsection \<open>Example clients\<close>

text \<open>The JSON text \<open>{"stars": 1000}\<close>; \<open>CHR 0x22\<close> is the double quote.\<close>

definition stars_json :: string where
  "stars_json = ''{'' @ [CHR 0x22] @ ''stars'' @ [CHR 0x22] @ '': 1000}''"

text \<open>
  A runtime for the examples. \<open>JSON.parse\<close> reads \<open>null\<close> and the text \<open>stars_json\<close> and
  throws on every other text.
\<close>

definition example_runtime :: runtime where
  "example_runtime =
     \<lparr> Date_now = (\<lambda>n. 1700000000 + int n),
       zodToJsonSchema = (\<lambda>j. JObj [(''type'', JStr ''object''), (''properties'', j)]),
       zodResponseFormat = (\<lambda>j n. JObj [(''type'', JStr ''json_schema''), (''name'', JStr n)]),
       toString_base64 = (\<lambda>b. ''/9j/4AAQ''),
       JSON_parse = (\<lambda>s. case s of
                           None \<Rightarrow> Inr JNull
                         | Some c \<Rightarrow> if c = stars_json then Inr (JObj [(''stars'', JNum 1000)])
                                     else Inl ''Unexpected token in JSON''),
       object_spread = (\<lambda>j. case j of JObj kvs \<Rightarrow> JObj kvs | _ \<Rightarrow> JObj []) \<rparr>"

text \<open>The caller's array: a system turn, a user turn with a text and an image part, and a system turn with an image part.\<close>

definition stars_messages :: "chat_message list" where
  "stars_messages =
     [ChatMessage System (Text ''Extract what the user asks for.''),
      ChatMessage User (Parts [TextPart ''How many stars?'',
                               ImageUrlPart ''data:image/png;base64,iVBORw0KGgo='']),
      ChatMessage System (Parts [ImageUrlPart ''data:image/png;base64,AAAA''])]"

text \<open>An image for \<open>options.image\<close>.\<close>

definition screenshot :: image where
  "screenshot = \<lparr> buffer = ''JFIF'', description = Some ''the page'' \<rparr>"

text \<open>Options that ask for structured output, with the array at address 0 and no \<open>retries\<close>.\<close>

definition stars_options :: anthropic_options where
  "stars_options =
     \<lparr> messages = 0, temperature = None, top_p = None, frequency_penalty = None,
       presence_penalty = None, image = Some screenshot,
       response_model =
         Some \<lparr> name = ''Extraction'', schema = JObj [(''stars'', JStr ''number'')] \<rparr>,
       tools = None, maxTokens = None, requestId = Some ''req-1'', retries = None \<rparr>"

text \<open>A world with that array and an empty cache.\<close>

definition fresh_world :: world where
  "fresh_world =
     \<lparr> arrays = (\<lambda>a. if a = 0 then stars_messages else []), cache = Map.empty, trace = [] \<rparr>"

text \<open>A vendor answer without a \<open>tool_use\<close> block.\<close>

definition text_response :: anthropic_response where
  "text_response =
     \<lparr> res_id = ''msg_01'', res_model = ''claude-3-5-sonnet-20240620'',
       res_content = [TextBlock ''The repository has 1000 stars.''],
       res_stop_reason = Some ''end_turn'', input_tokens = 20, output_tokens = 9 \<rparr>"

text \<open>A vendor answer that invokes the forcing tool.\<close>

definition tool_response :: anthropic_response where
  "tool_response =
     \<lparr> res_id = ''msg_02'', res_model = ''claude-3-5-sonnet-20240620'',
       res_content = [ToolUseBlock ''toolu_01'' ''print_extracted_data'' [(''stars'', JNum 1000)]],
       res_stop_reason = Some ''tool_use'', input_tokens = 20, output_tokens = 12 \<rparr>"

text \<open>A client whose model never invokes a tool.\<close>

definition stubborn_client :: anthropic_client where
  "stubborn_client =
     \<lparr> a_modelName = ''claude-3-5-sonnet-20240620'', a_enableCaching = True,
       messages_create = (\<lambda>n request. Inr text_response) \<rparr>"

text \<open>A client whose model answers in text first and invokes the tool from the second attempt on.\<close>

definition second_try_client :: anthropic_client where
  "second_try_client =
     \<lparr> a_modelName = ''claude-3-5-sonnet-20240620'', a_enableCaching = True,
       messages_create = (\<lambda>n request. Inr (if n < 2 then text_response else tool_response)) \<rparr>"

text \<open>The structured result of \<open>tool_response\<close>.\<close>

definition stars_result :: completion where
  "stars_result = Structured (JObj [(''stars'', JNum 1000)])"

text \<open>The world after the first attempt of \<open>second_try_client\<close>.\<close>

definition first_attempt :: world where
  "first_attempt = a_sent example_runtime second_try_client stars_options fresh_world"

text \<open>An OpenAI client for the examples; the model answers with the text \<open>stars_json\<close>.\<close>

definition gpt_client :: openai_client where
  "gpt_client =
     \<lparr> o_modelName = ''gpt-4o'', o_enableCaching = True,
       chat_completions_create =
         (\<lambda>n body. Inr \<lparr> cc_id = ''chatcmpl-1'', cc_choices = [Some stars_json] \<rparr>) \<rparr>"

text \<open>Options for it, with an image.\<close>

definition gpt_options :: chat_completion_options where
  "gpt_options =
     \<lparr> messages = 0, temperature = None, top_p = None, frequency_penalty = None,
       presence_penalty = None, image = Some screenshot,
       response_model =
         Some \<lparr> name = ''Extraction'', schema = JObj [(''stars'', JStr ''number'')] \<rparr>,
       tools = None, maxTokens = None, requestId = Some ''req-1'' \<rparr>"

text \<open>The fingerprint of \<open>gpt_options\<close> when the array at address 0 holds \<open>msgs\<close>.\<close>

definition gpt_key :: "chat_message list \<Rightarrow> fingerprint" where
  "gpt_key msgs =
     \<lparr> co_model = ''gpt-4o'', co_messages = msgs,
       co_temperature = None, co_top_p = None, co_frequency_penalty = None,
       co_presence_penalty = None, co_image = Some screenshot,
       co_response_model =
         Some \<lparr> name = ''Extraction'', schema = JObj [(''stars'', JStr ''number'')] \<rparr>,
       co_tools = None, co_retries = None \<rparr>"

text \<open>The world after a first call of the OpenAI client with \<open>gpt_options\<close>.\<close>

definition after_first_call :: world where
  "after_first_call =
     snd (OpenAIClient_createChatCompletion example_runtime gpt_client gpt_options fresh_world)"

section \<open>Properties of the extract handler\<close>

lemma dom_called [simp]: "dom (called e s) = dom s"
  by (simp add: called_def)

lemma calls_called [simp]: "calls (called e s) = calls s @ [e]"
  by (simp add: called_def)

lemma callsDuring_append [simp]: "calls s' = calls s @ evs \<Longrightarrow> callsDuring s s' = evs"
  by (simp add: callsDuring_def)

subsection \<open>Deduplication\<close>

lemma firstOccurrences_Nil [simp]: "firstOccurrences key [] = []"
  by (simp add: firstOccurrences_def)

lemma firstOccurrences_snoc:
  "firstOccurrences key (pre @ [b]) =
     firstOccurrences key pre @ (if key b \<in> key ` set pre then [] else [b])"
proof -
  have e: "enumerate 0 (pre @ [b]) = enumerate 0 pre @ [(length pre, b)]"
    by (simp add: enumerate_append_eq)
  have f: "filter (\<lambda>(i, box). key box \<notin> key ` set (take i (pre @ [b]))) (enumerate 0 pre) =
           filter (\<lambda>(i, box). key box \<notin> key ` set (take i pre)) (enumerate 0 pre)"
    by (rule filter_cong) (auto simp: in_set_enumerate_eq)
  show ?thesis
    unfolding firstOccurrences_def e filter_append map_append f by simp
qed

lemma keys_firstOccurrences: "key ` set (firstOccurrences key bs) = key ` set bs"
  by (induction bs rule: rev_induct) (auto simp: firstOccurrences_snoc)

lemma distinct_firstOccurrences: "distinct (map key (firstOccurrences key bs))"
proof (induction bs rule: rev_induct)
  case Nil
  then show ?case by simp
next
  case (snoc b bs)
  then show ?case
    using keys_firstOccurrences [of key bs] by (auto simp: firstOccurrences_snoc)
qed

text \<open>
  The inner loop, started after the boxes \<open>pre\<close> have been processed, ends as if it had
  processed \<open>pre @ bs\<close>.
\<close>

lemma foldl_addBox:
  "foldl (addBox vp)
      (annotationKey ` set pre, map (textAnnotation vp) (firstOccurrences annotationKey pre)) bs =
     (annotationKey ` set (pre @ bs),
      map (textAnnotation vp) (firstOccurrences annotationKey (pre @ bs)))"
proof (induction bs arbitrary: pre)
  case Nil
  then show ?case by simp
next
  case (Cons b bs)
  have "addBox vp
          (annotationKey ` set pre, map (textAnnotation vp) (firstOccurrences annotationKey pre)) b =
        (annotationKey ` set (pre @ [b]),
         map (textAnnotation vp) (firstOccurrences annotationKey (pre @ [b])))"
    by (auto simp: addBox_def firstOccurrences_snoc)
  then show ?case using Cons.IH [of "pre @ [b]"] by simp
qed

lemma collectAnnotations_firstOccurrences:
  "collectAnnotations env xs
      (annotationKey ` set pre,
       map (textAnnotation (viewportSize env)) (firstOccurrences annotationKey pre)) s
     = (Inr (seen, anns), s') \<Longrightarrow>
   anns = map (textAnnotation (viewportSize env))
            (firstOccurrences annotationKey (pre @ processedBoxes env (dom s) xs))"
proof (induction xs arbitrary: pre s)
  case Nil
  then show ?case by (simp add: processedBoxes_def)
next
  case (Cons xpaths rest)
  let ?xpath = "case xpaths of [] \<Rightarrow> None | p # _ \<Rightarrow> Some p"
  from Cons.prems obtain bs where
    bs: "getElementBoundingBoxes env (dom s) ?xpath = Inr bs"
    and run: "collectAnnotations env rest
               (annotationKey ` set (pre @ bs),
                map (textAnnotation (viewportSize env)) (firstOccurrences annotationKey (pre @ bs)))
               (called (GetElementBoundingBoxes ?xpath) s) = (Inr (seen, anns), s')"
    by (auto simp: Let_def foldl_addBox split: sum.splits)
  from Cons.IH [OF run] bs show ?case
    by (simp add: processedBoxes_def)
qed

text \<open>The key the code computes is the key the spec names.\<close>

lemma annotationKey_is_dedup_key:
  "annotationKey =
     (\<lambda>box. (bounding_box.text box,
              left box + bounding_box.width box / 2,
              top box + bounding_box.height box / 2,
              bounding_box.width box,
              bounding_box.height box))"
  by (rule ext) (simp add: annotationKey_def)

text \<open>
  C5. Let the dedup key of a box be \<open>(text, left + width / 2, top + height / 2, width,
  height)\<close>. When the loop over the selector map completes, the annotations it has
  emitted are the annotations of the first occurrences, by that key, of the processed
  boxes, in the order of the boxes: one annotation for each distinct key, however many
  boxes carry the key.
\<close>

theorem annotations_are_first_occurrences:
  assumes "collectAnnotations env xs ({}, []) s = (Inr (seen, anns), s')"
  shows "let key = (\<lambda>box. (bounding_box.text box,
                           left box + bounding_box.width box / 2,
                           top box + bounding_box.height box / 2,
                           bounding_box.width box,
                           bounding_box.height box));
             boxes = processedBoxes env (dom s) xs
         in anns = map (textAnnotation (viewportSize env)) (firstOccurrences key boxes) \<and>
            distinct (map key (firstOccurrences key boxes)) \<and>
            key ` set (firstOccurrences key boxes) = key ` set boxes \<and>
            length anns = card (key ` set boxes)"
proof -
  let ?bs = "processedBoxes env (dom s) xs"
  have a: "anns = map (textAnnotation (viewportSize env)) (firstOccurrences annotationKey ?bs)"
    using collectAnnotations_firstOccurrences [of env xs "[]" s seen anns s'] assms by simp
  have "length anns = length (map annotationKey (firstOccurrences annotationKey ?bs))"
    using a by simp
  also have "\<dots> = card (set (map annotationKey (firstOccurrences annotationKey ?bs)))"
    using distinct_card [OF distinct_firstOccurrences [of annotationKey ?bs]] by simp
  also have "\<dots> = card (annotationKey ` set ?bs)"
    using keys_firstOccurrences [of annotationKey ?bs] by simp
  finally have "anns = map (textAnnotation (viewportSize env)) (firstOccurrences annotationKey ?bs) \<and>
      distinct (map annotationKey (firstOccurrences annotationKey ?bs)) \<and>
      annotationKey ` set (firstOccurrences annotationKey ?bs) = annotationKey ` set ?bs \<and>
      length anns = card (annotationKey ` set ?bs)"
    using a distinct_firstOccurrences [of annotationKey ?bs]
      keys_firstOccurrences [of annotationKey ?bs] by simp
  then show ?thesis
    unfolding Let_def annotationKey_is_dedup_key .
qed

subsection \<open>The example page\<close>

lemma github_keys:
  "annotationKey github_box = (''Stars: 1000'', 50, 30, 80, 20)"
  "annotationKey forks_box = (''Forks: 12'', 45, 70, 70, 20)"
  "annotationKey moved_box = (''Stars: 1000'', 550, 30, 80, 20)"
  by (simp_all add: annotationKey_def github_box_def forks_box_def moved_box_def)

lemma github_collect:
  "collectAnnotations (github_env answer) [[''/html/body''], [''/html/body/p'']] ({}, []) s =
     (Inr ({annotationKey github_box, annotationKey forks_box, annotationKey moved_box},
           [textAnnotation github_viewport github_box, textAnnotation github_viewport forks_box,
            textAnnotation github_viewport moved_box]),
      s\<lparr>calls := calls s @ [GetElementBoundingBoxes (Some ''/html/body''),
                             GetElementBoundingBoxes (Some ''/html/body/p'')]\<rparr>)"
  by (simp add: github_env_def addBox_def github_keys called_def Let_def insert_commute)

lemma text_textAnnotation [simp]:
  "text_annotation.text (textAnnotation vp b) = bounding_box.text b"
  by (simp add: textAnnotation_def)

lemma github_env_simps:
  "storeDOM (github_env answer) = (\<lambda>d. Inr ())"
  "restoreDOM (github_env answer) = (\<lambda>snapshot d. Inr ())"
  "processAllOfDom (github_env answer)
     = (\<lambda>d. Inr ([(0, [''/html/body'']), (1, [''/html/body/p''])], d))"
  "createTextBoundingBoxes (github_env answer) = (\<lambda>d. Inr (d @ ''<span class=box></span>''))"
  "formatText (github_env answer) = (\<lambda>anns. concat (map text_annotation.text anns))"
  "inference_extract (github_env answer) = (\<lambda>a. answer)"
  "defaultModelName (github_env answer) = ''gpt-4o''"
  by (simp_all add: github_env_def)

lemma github_inferenceArgs:
  "inferenceArgs (github_env answer) github_request ''Stars: 1000Forks: 12Stars: 1000''
     = github_args"
  by (simp add: inferenceArgs_def github_args_def github_request_def github_env_simps)

lemma github_texts:
  "bounding_box.text github_box = ''Stars: 1000''"
  "bounding_box.text forks_box = ''Forks: 12''"
  "bounding_box.text moved_box = ''Stars: 1000''"
  "domSettleTimeoutMs github_request = None"
  by (simp_all add: github_box_def forks_box_def moved_box_def github_request_def)

lemma github_extract:
  "extract (github_env answer) github_request github_page =
     (case answer of
        Inl m \<Rightarrow> (Inl (InferenceFailed m), github_page\<lparr>calls := github_calls\<rparr>)
      | Inr resp \<Rightarrow>
          (if completed resp then Inr (output resp) else Inl ExtractionNotCompleted,
           github_page\<lparr>calls := github_calls @ [CleanupDomDebug]\<rparr>))"
  by (cases answer)
    (simp_all add: extract_def github_env_simps Object_values_def github_collect Let_def
        github_texts github_inferenceArgs called_def github_calls_def github_page_def
        del: collectAnnotations.simps)

lemma github_extract_throwing:
  "extract throwing_env github_request github_page =
     (Inl (PageEvaluateFailed ''Execution context was destroyed''),
      \<lparr> dom = ''<body><p>Stars: 1000</p></body><span class=box></span>'',
        calls = [WaitForSettledDom None, StartDomDebug, StoreDOM, ProcessAllOfDom,
                 CreateTextBoundingBoxes, GetElementBoundingBoxes (Some ''/html/body'')] \<rparr>)"
  by (simp add: extract_def throwing_env_def github_env_def github_request_def github_page_def
        Object_values_def called_def Let_def)

lemma github_extract_unrestorable:
  "extract unrestorable_env github_request github_page =
     (Inl (PageEvaluateFailed ''Target closed''),
      \<lparr> dom = ''<body><p>Stars: 1000</p></body><span class=box></span>'',
        calls = [WaitForSettledDom None, StartDomDebug, StoreDOM, ProcessAllOfDom,
                 CreateTextBoundingBoxes, GetElementBoundingBoxes (Some ''/html/body''),
                 GetElementBoundingBoxes (Some ''/html/body/p''),
                 RestoreDOM ''<body><p>Stars: 1000</p></body>''] \<rparr>)"
proof -
  have env: "storeDOM unrestorable_env = (\<lambda>d. Inr ())"
    "restoreDOM unrestorable_env = (\<lambda>snapshot d. Inl ''Target closed'')"
    "processAllOfDom unrestorable_env
       = (\<lambda>d. Inr ([(0, [''/html/body'']), (1, [''/html/body/p''])], d))"
    "createTextBoundingBoxes unrestorable_env = (\<lambda>d. Inr (d @ ''<span class=box></span>''))"
    by (simp_all add: unrestorable_env_def github_env_def)
  have collect: "collectAnnotations unrestorable_env xs acc s
      = collectAnnotations (github_env (Inr (stars_response True))) xs acc s" for xs acc s
    by (induction xs arbitrary: acc s)
       (simp_all add: unrestorable_env_def Let_def split: sum.splits)
  show ?thesis
    by (simp add: extract_def env Object_values_def collect github_collect Let_def
          github_texts called_def github_page_def
          del: collectAnnotations.simps)
qed

text \<open>
  The theorem of C5 on the example page. The first element reports the star box, the
  fork box and the star box again, the second one the star box and the moved star box:
  five boxes, three distinct keys (the moved box has the text and size of the star box
  and another centre), three annotations in the order star, fork, moved star.
\<close>

theorem annotations_are_first_occurrences_witness:
  "collectAnnotations (github_env (Inr (stars_response True)))
       [[''/html/body''], [''/html/body/p'']] ({}, []) github_page
     = (Inr ({annotationKey github_box, annotationKey forks_box, annotationKey moved_box},
             [textAnnotation github_viewport github_box,
              textAnnotation github_viewport forks_box,
              textAnnotation github_viewport moved_box]),
        github_page\<lparr>calls := calls github_page @
           [GetElementBoundingBoxes (Some ''/html/body''),
            GetElementBoundingBoxes (Some ''/html/body/p'')]\<rparr>) \<and>
   processedBoxes (github_env (Inr (stars_response True))) (dom github_page)
       [[''/html/body''], [''/html/body/p'']]
     = [github_box, forks_box, github_box, github_box, moved_box] \<and>
   [textAnnotation github_viewport github_box, textAnnotation github_viewport forks_box,
    textAnnotation github_viewport moved_box]
     = map (textAnnotation github_viewport)
         (firstOccurrences
            (\<lambda>box. (bounding_box.text box,
                     left box + bounding_box.width box / 2,
                     top box + bounding_box.height box / 2,
                     bounding_box.width box,
                     bounding_box.height box))
            [github_box, forks_box, github_box, github_box, moved_box]) \<and>
   card ((\<lambda>box. (bounding_box.text box,
                  left box + bounding_box.width box / 2,
                  top box + bounding_box.height box / 2,
                  bounding_box.width box,
                  bounding_box.height box))
           ` set [github_box, forks_box, github_box, github_box, moved_box]) = 3"
proof -
  note run = github_collect [of "Inr (stars_response True)" github_page]
  have vp: "viewportSize (github_env (Inr (stars_response True))) = github_viewport"
    by (simp add: github_env_def)
  have boxes: "processedBoxes (github_env (Inr (stars_response True))) (dom github_page)
       [[''/html/body''], [''/html/body/p'']]
     = [github_box, forks_box, github_box, github_box, moved_box]"
    by (simp add: processedBoxes_def github_env_def)
  from annotations_are_first_occurrences [OF run] vp run boxes show ?thesis
    by (simp add: Let_def)
qed

subsection \<open>Midpoints\<close>

text \<open>
  C3. With viewport 1000 x 500 and the box \<open>{left: 10, top: 20, width: 80, height: 20}\<close>
  the annotation has midpoint (10, 40) and the normalised x is 0.01, but the normalised
  y is \<open>20 + 20 / 500 = 20.04\<close>, not \<open>(20 + 20) / 500 = 0.08\<close>: line 132 divides the
  height alone by the viewport height.
\<close>

theorem midpoint_normalized_github_stars:
  "foldl (addBox github_viewport) ({}, []) [github_box] =
     ({annotationKey github_box},
      [\<lparr> text_annotation.text = ''Stars: 1000'',
         midpoint = \<lparr> x = 10, y = 40 \<rparr>,
         midpoint_normalized = \<lparr> x = 1 / 100, y = 501 / 25 \<rparr>,
         text_annotation.width = 80, text_annotation.height = 20 \<rparr>]) \<and>
   y (midpoint_normalized (textAnnotation github_viewport github_box)) \<noteq> 8 / 100"
  by (simp add: addBox_def textAnnotation_def github_box_def github_viewport_def)

subsection \<open>Restoring the DOM\<close>

lemma dom_collectAnnotations:
  "collectAnnotations env xs acc s = (r, s') \<Longrightarrow> dom s' = dom s"
  by (induction xs arbitrary: acc s) (auto simp: Let_def split: sum.splits)

lemma calls_collectAnnotations:
  "collectAnnotations env xs acc s = (r, s') \<Longrightarrow>
     \<exists>evs. calls s' = calls s @ evs \<and> (\<forall>e \<in> set evs. \<exists>p. e = GetElementBoundingBoxes p)"
proof (induction xs arbitrary: acc s)
  case Nil
  then show ?case by simp
next
  case (Cons xpaths rest)
  show ?case
  proof (cases "getElementBoundingBoxes env (dom s) (case xpaths of [] \<Rightarrow> None | p # _ \<Rightarrow> Some p)")
    case (Inl m)
    with Cons.prems show ?thesis by (auto simp: Let_def)
  next
    case (Inr bs)
    with Cons.prems Cons.IH show ?thesis by (fastforce simp: Let_def)
  qed
qed

lemma collectAnnotations_error:
  "collectAnnotations env xs acc s = (Inl e, s') \<Longrightarrow> \<exists>m. e = PageEvaluateFailed m"
  by (induction xs arbitrary: acc s) (auto simp: Let_def split: sum.splits)

text \<open>
  The runs of \<open>extract\<close>, by the place where they end: the calls made, the DOM left, and
  the result.
\<close>

lemma extract_cases:
  assumes run: "extract env req s = (r, s')"
  obtains
    (page_failed) m evs where
      "r = Inl (PageEvaluateFailed m)"
      "callsDuring s s' = evs"
      "RestoreDOM (dom s) \<notin> set (butlast evs)"
      "\<forall>a. InferenceExtract a \<notin> set evs"
  | (restored) evs args where
      "dom s' = dom s"
      "callsDuring s s' = evs @ [RestoreDOM (dom s), InferenceExtract args]
         @ (case inference_extract env args of Inl _ \<Rightarrow> [] | Inr _ \<Rightarrow> [CleanupDomDebug])"
      "\<forall>a. InferenceExtract a \<notin> set evs"
      "r = (case inference_extract env args of
              Inl m \<Rightarrow> Inl (InferenceFailed m)
            | Inr resp \<Rightarrow> if completed resp then Inr (output resp)
                         else Inl ExtractionNotCompleted)"
proof (cases "storeDOM env (dom s)")
  case (Inl m)
  with run have "r = Inl (PageEvaluateFailed m)"
    "calls s' = calls s @ [WaitForSettledDom (domSettleTimeoutMs req), StartDomDebug, StoreDOM]"
    by (auto simp: extract_def Let_def)
  then show ?thesis by (intro page_failed [of m]) auto
next
  case stored: (Inr u)
  show ?thesis
  proof (cases "processAllOfDom env (dom s)")
    case (Inl m)
    with run stored have "r = Inl (PageEvaluateFailed m)"
      "calls s' = calls s @ [WaitForSettledDom (domSettleTimeoutMs req), StartDomDebug, StoreDOM,
         ProcessAllOfDom]"
      by (auto simp: extract_def Let_def)
    then show ?thesis by (intro page_failed [of m]) auto
  next
    case (Inr p)
    obtain selectorMap d where p: "p = (selectorMap, d)" by (cases p)
    show ?thesis
    proof (cases "createTextBoundingBoxes env d")
      case (Inl m)
      with run stored Inr p have "r = Inl (PageEvaluateFailed m)"
        "calls s' = calls s @ [WaitForSettledDom (domSettleTimeoutMs req), StartDomDebug, StoreDOM,
           ProcessAllOfDom, CreateTextBoundingBoxes]"
        by (auto simp: extract_def Let_def)
      then show ?thesis by (intro page_failed [of m]) auto
    next
      case d': (Inr d')
      define s5 where "s5 = (called CreateTextBoundingBoxes
               ((called ProcessAllOfDom (called StoreDOM (called StartDomDebug
                  (called (WaitForSettledDom (domSettleTimeoutMs req)) s))))\<lparr>dom := d\<rparr>))\<lparr>dom := d'\<rparr>"
      obtain c s6 where c: "collectAnnotations env (Object_values selectorMap) ({}, []) s5 = (c, s6)"
        by (cases "collectAnnotations env (Object_values selectorMap) ({}, []) s5")
      from calls_collectAnnotations [OF c] obtain evs where
        evs: "calls s6 = calls s5 @ evs" "\<forall>e\<in>set evs. \<exists>p. e = GetElementBoundingBoxes p" by blast
      have s5: "calls s5 = calls s @ [WaitForSettledDom (domSettleTimeoutMs req), StartDomDebug,
                  StoreDOM, ProcessAllOfDom, CreateTextBoundingBoxes]"
        by (simp add: s5_def)
      have d6: "dom s6 = d'" using dom_collectAnnotations [OF c] by (simp add: s5_def)
      let ?pre = "[WaitForSettledDom (domSettleTimeoutMs req), StartDomDebug,
                  StoreDOM, ProcessAllOfDom, CreateTextBoundingBoxes] @ evs"
      have pre: "RestoreDOM (dom s) \<notin> set ?pre" "\<forall>a. InferenceExtract a \<notin> set ?pre"
        using evs(2) by auto
      show ?thesis
      proof (cases c)
        case (Inl e)
        with collectAnnotations_error c obtain m where m: "e = PageEvaluateFailed m" by blast
        from run stored Inr p d' c Inl m evs(1) s5
        have "r = Inl (PageEvaluateFailed m)" "calls s' = calls s @ ?pre"
          by (auto simp: extract_def Let_def s5_def [symmetric])
        with pre show ?thesis
          by (intro page_failed [of m ?pre]) (auto dest: in_set_butlastD)
      next
        case acc: (Inr acc)
        obtain seen anns where a: "acc = (seen, anns)" by (cases acc)
        show ?thesis
        proof (cases "restoreDOM env (dom s) d'")
          case (Inl m)
          from run stored Inr p d' c acc a evs(1) s5 d6 Inl
          have "r = Inl (PageEvaluateFailed m)" "calls s' = calls s @ (?pre @ [RestoreDOM (dom s)])"
            by (auto simp: extract_def Let_def s5_def [symmetric])
          with pre show ?thesis
            by (intro page_failed [of m "?pre @ [RestoreDOM (dom s)]"])
               (auto simp: butlast_append)
        next
          case restored': (Inr u')
          let ?args = "inferenceArgs env req (formatText env anns)"
          from run stored Inr p d' c acc a evs(1) s5 d6 restored'
          have "dom s' = dom s"
            "calls s' = calls s @ (?pre @ [RestoreDOM (dom s), InferenceExtract ?args]
               @ (case inference_extract env ?args of Inl _ \<Rightarrow> [] | Inr _ \<Rightarrow> [CleanupDomDebug]))"
            "r = (case inference_extract env ?args of
              Inl m \<Rightarrow> Inl (InferenceFailed m)
            | Inr resp \<Rightarrow> if completed resp then Inr (output resp)
                         else Inl ExtractionNotCompleted)"
            by (auto simp: extract_def Let_def s5_def [symmetric] split: sum.splits if_splits)
          with pre show ?thesis
            by (intro restored [of ?pre ?args]) auto
        qed
      qed
    qed
  qed
qed


text \<open>
  C1, as stated, fails: when \<open>getElementBoundingBoxes\<close> throws, \<open>extract\<close> ends with
  that error, the DOM still holds the boxes that \<open>createTextBoundingBoxes\<close> injected, and
  \<open>restoreDOM\<close> has not been called.
\<close>

theorem extract_leaves_dom_counterexample:
  "fst (extract throwing_env github_request github_page)
     = Inl (PageEvaluateFailed ''Execution context was destroyed'') \<and>
   dom (snd (extract throwing_env github_request github_page)) \<noteq> dom github_page \<and>
   RestoreDOM (dom github_page)
     \<notin> set (calls (snd (extract throwing_env github_request github_page)))"
  by (simp add: github_extract_throwing) (simp add: github_page_def)

text \<open>
  C1, amended. If \<open>extract\<close> does not end with the error of a page evaluation (of
  \<open>storeDOM\<close>, \<open>processAllOfDom\<close>, \<open>createTextBoundingBoxes\<close>, a
  \<open>getElementBoundingBoxes\<close> or \<open>restoreDOM\<close>), then \<open>restoreDOM(originalDOM)\<close> has been
  called and the DOM after the call is the DOM before it: so it is when \<open>extract\<close>
  returns data, when the inference call throws and when the extraction is reported
  incomplete. If it does end with the error of a page evaluation, then no \<open>restoreDOM\<close>
  has completed (the only call of it, if any, is the last call made, the one that threw)
  and the inference call has not been made.
\<close>

theorem extract_restores_dom:
  assumes run: "extract env req s = (r, s')"
  shows "((\<forall>m. r \<noteq> Inl (PageEvaluateFailed m)) \<longrightarrow>
            dom s' = dom s \<and> RestoreDOM (dom s) \<in> set (callsDuring s s')) \<and>
         (\<forall>m. r = Inl (PageEvaluateFailed m) \<longrightarrow>
            RestoreDOM (dom s) \<notin> set (butlast (callsDuring s s')) \<and>
            (\<forall>a. InferenceExtract a \<notin> set (callsDuring s s')))"
  using run
proof (cases rule: extract_cases)
  case (page_failed m evs)
  then show ?thesis by simp
next
  case (restored evs args)
  then show ?thesis by (auto split: sum.splits if_splits)
qed

text \<open>
  The amended C1 on the example page: when the inference call is rate limited the DOM
  is restored; when the evaluation of \<open>restoreDOM\<close> throws it is not, and that call is
  the last one.
\<close>

theorem extract_restores_dom_witness:
  "fst (extract (github_env (Inl ''429 Too Many Requests'')) github_request github_page)
     = Inl (InferenceFailed ''429 Too Many Requests'') \<and>
   dom (snd (extract (github_env (Inl ''429 Too Many Requests'')) github_request github_page))
     = dom github_page \<and>
   RestoreDOM (dom github_page)
     \<in> set (callsDuring github_page
         (snd (extract (github_env (Inl ''429 Too Many Requests'')) github_request github_page))) \<and>
   fst (extract unrestorable_env github_request github_page)
     = Inl (PageEvaluateFailed ''Target closed'') \<and>
   dom (snd (extract unrestorable_env github_request github_page)) \<noteq> dom github_page \<and>
   last (callsDuring github_page (snd (extract unrestorable_env github_request github_page)))
     = RestoreDOM (dom github_page) \<and>
   RestoreDOM (dom github_page)
     \<notin> set (butlast (callsDuring github_page
           (snd (extract unrestorable_env github_request github_page))))"
proof -
  have run: "extract (github_env (Inl ''429 Too Many Requests'')) github_request github_page
      = (Inl (InferenceFailed ''429 Too Many Requests''), github_page\<lparr>calls := github_calls\<rparr>)"
    by (simp add: github_extract)
  note run2 = github_extract_unrestorable
  have facts: "dom (snd (extract unrestorable_env github_request github_page)) \<noteq> dom github_page"
    "last (callsDuring github_page (snd (extract unrestorable_env github_request github_page)))
     = RestoreDOM (dom github_page)"
    unfolding run2 by (simp_all add: callsDuring_def github_page_def)
  from extract_restores_dom [OF run] extract_restores_dom [OF run2] run run2 facts
  show ?thesis by simp
qed

subsection \<open>The completion gate\<close>

text \<open>
  C2. If the inference call of a run answers with \<open>completed = false\<close>, \<open>extract\<close> throws
  "Extraction not completed"; and if \<open>extract\<close> returns data, the data is the output of
  an answer of that run with \<open>completed = true\<close>.
\<close>

theorem extract_completion_gate:
  assumes run: "extract env req s = (r, s')"
  shows "(\<forall>args resp. InferenceExtract args \<in> set (callsDuring s s') \<and>
            inference_extract env args = Inr resp \<and> \<not> completed resp
            \<longrightarrow> r = Inl ExtractionNotCompleted) \<and>
         (\<forall>out. r = Inr out \<longrightarrow>
            (\<exists>args resp. InferenceExtract args \<in> set (callsDuring s s') \<and>
               inference_extract env args = Inr resp \<and> completed resp \<and> output resp = out))"
  using run
proof (cases rule: extract_cases)
  case (page_failed m evs)
  then show ?thesis by simp
next
  case (restored evs args)
  have only: "a = args" if "InferenceExtract a \<in> set (callsDuring s s')" for a
    using that restored(2,3) by (auto split: sum.splits)
  have made: "InferenceExtract args \<in> set (callsDuring s s')"
    using restored(2) by simp
  show ?thesis
  proof (intro conjI allI impI)
    fix a resp
    assume "InferenceExtract a \<in> set (callsDuring s s') \<and>
            inference_extract env a = Inr resp \<and> \<not> completed resp"
    with only [of a] restored(4) show "r = Inl ExtractionNotCompleted" by simp
  next
    fix out assume "r = Inr out"
    with restored(4) obtain resp where
      "inference_extract env args = Inr resp" "completed resp" "output resp = out"
      by (auto split: sum.splits if_splits)
    with made show "\<exists>args resp. InferenceExtract args \<in> set (callsDuring s s') \<and>
               inference_extract env args = Inr resp \<and> completed resp \<and> output resp = out"
      by blast
  qed
qed

text \<open>
  C2 on the example page: the incomplete answer is refused, the complete one returned.
\<close>

theorem extract_completion_gate_witness:
  "InferenceExtract github_args
     \<in> set (callsDuring github_page
         (snd (extract (github_env (Inr (stars_response False))) github_request github_page))) \<and>
   inference_extract (github_env (Inr (stars_response False))) github_args
     = Inr (stars_response False) \<and>
   \<not> completed (stars_response False) \<and>
   fst (extract (github_env (Inr (stars_response False))) github_request github_page)
     = Inl ExtractionNotCompleted \<and>
   fst (extract (github_env (Inr (stars_response True))) github_request github_page)
     = Inr (output (stars_response True)) \<and>
   completed (stars_response True)"
proof -
  let ?env = "github_env (Inr (stars_response False))"
  obtain r s' where run: "extract ?env github_request github_page = (r, s')"
    by (cases "extract ?env github_request github_page")
  have s': "s' = github_page\<lparr>calls := github_calls @ [CleanupDomDebug]\<rparr>"
    using run by (simp add: github_extract)
  have made: "InferenceExtract github_args \<in> set (callsDuring github_page s')"
    by (simp add: s' callsDuring_def github_calls_def github_page_def)
  have answer: "inference_extract ?env github_args = Inr (stars_response False)"
    by (simp add: github_env_simps)
  have incomplete: "\<not> completed (stars_response False)"
    by (simp add: stars_response_def)
  from extract_completion_gate [OF run] made answer incomplete
  have "r = Inl ExtractionNotCompleted" by blast
  with run made answer incomplete show ?thesis
    by (simp add: github_extract stars_response_def)
qed

section \<open>Properties of the model clients\<close>

subsection \<open>One invocation and the recursion\<close>

declare AnthropicClient_createChatCompletion.simps [simp del]

lemma find_isToolUse:
  "find isToolUse xs = None \<or> (\<exists>i nm inp. find isToolUse xs = Some (ToolUseBlock i nm inp))"
proof (cases "find isToolUse xs")
  case None
  then show ?thesis by simp
next
  case (Some c)
  then have "isToolUse c" by (auto simp: find_Some_iff)
  with Some show ?thesis by (cases c) (auto simp: isToolUse_def)
qed

lemma run_hit:
  assumes "a_enableCaching this" "cache w (a_key this options w) = Some v"
  shows "AnthropicClient_createChatCompletion rt this options w = (Inr v, a_looked this options w)"
  using assms
  by (simp add: AnthropicClient_createChatCompletion.simps [of rt this options w]
        cache_get_def a_key_def a_looked_def Let_def)

lemma run_miss:
  assumes "a_miss this options w"
  shows "AnthropicClient_createChatCompletion rt this options w =
     (case a_answer rt this options w of
        Inl m \<Rightarrow> (Inl (VendorFailed m), a_sent rt this options w)
      | Inr response \<Rightarrow>
         (case response_model options of
            None \<Rightarrow>
              (Inr (AnthropicCompletion (transformResponse
                      (Date_now rt (length (trace (a_sent rt this options w)))) response)),
               a_stored rt this options w (AnthropicCompletion (transformResponse
                      (Date_now rt (length (trace (a_sent rt this options w)))) response)))
          | Some rm \<Rightarrow>
              (case find isToolUse (res_content response) of
                 Some (ToolUseBlock i nm inp) \<Rightarrow>
                   (Inr (Structured (JObj inp)), a_stored rt this options w (Structured (JObj inp)))
               | _ \<Rightarrow>
                   if mayRetry (retries options)
                   then AnthropicClient_createChatCompletion rt this
                          (options\<lparr>retries := Some (nextRetries (retries options))\<rparr>)
                          (a_sent rt this options w)
                   else (Inl NoToolUseInResponse, a_sent rt this options w))))"
  using assms
  apply (subst AnthropicClient_createChatCompletion.simps)
  apply (simp add: a_miss_def cache_get_def cache_set_def a_key_def a_looked_def a_sent_def
        a_answer_def a_request_def a_stored_def Let_def
        split: sum.splits option.splits content_block.splits)
  done

lemma mayRetry_eff: "mayRetry r \<longleftrightarrow> eff r < 5"
  by (auto simp: mayRetry_def eff_def split: option.splits)

lemma nextRetries_eff: "nextRetries r = eff r + 1"
  by (simp add: nextRetries_def eff_def)

lemma run_induct [case_names hit failed plain tool gave_up retry]:
  assumes hit: "\<And>options w v. a_enableCaching this \<Longrightarrow> cache w (a_key this options w) = Some v
                  \<Longrightarrow> P options w (Inr v, a_looked this options w)"
    and failed: "\<And>options w m. a_miss this options w \<Longrightarrow> a_answer rt this options w = Inl m
                  \<Longrightarrow> P options w (Inl (VendorFailed m), a_sent rt this options w)"
    and plain: "\<And>options w response v. a_miss this options w
                  \<Longrightarrow> a_answer rt this options w = Inr response
                  \<Longrightarrow> response_model options = None
                  \<Longrightarrow> v = AnthropicCompletion (transformResponse
                        (Date_now rt (length (trace (a_sent rt this options w)))) response)
                  \<Longrightarrow> P options w (Inr v, a_stored rt this options w v)"
    and tool: "\<And>options w response rm i nm inp. a_miss this options w
                  \<Longrightarrow> a_answer rt this options w = Inr response
                  \<Longrightarrow> response_model options = Some rm
                  \<Longrightarrow> find isToolUse (res_content response) = Some (ToolUseBlock i nm inp)
                  \<Longrightarrow> P options w (Inr (Structured (JObj inp)),
                                     a_stored rt this options w (Structured (JObj inp)))"
    and gave_up: "\<And>options w response rm. a_miss this options w
                  \<Longrightarrow> a_answer rt this options w = Inr response
                  \<Longrightarrow> response_model options = Some rm
                  \<Longrightarrow> find isToolUse (res_content response) = None
                  \<Longrightarrow> \<not> mayRetry (retries options)
                  \<Longrightarrow> P options w (Inl NoToolUseInResponse, a_sent rt this options w)"
    and retry: "\<And>options w response rm. a_miss this options w
                  \<Longrightarrow> a_answer rt this options w = Inr response
                  \<Longrightarrow> response_model options = Some rm
                  \<Longrightarrow> find isToolUse (res_content response) = None
                  \<Longrightarrow> mayRetry (retries options)
                  \<Longrightarrow> P (options\<lparr>retries := Some (nextRetries (retries options))\<rparr>)
                        (a_sent rt this options w)
                        (AnthropicClient_createChatCompletion rt this
                          (options\<lparr>retries := Some (nextRetries (retries options))\<rparr>)
                          (a_sent rt this options w))
                  \<Longrightarrow> P options w
                        (AnthropicClient_createChatCompletion rt this
                          (options\<lparr>retries := Some (nextRetries (retries options))\<rparr>)
                          (a_sent rt this options w))"
  shows "P options w (AnthropicClient_createChatCompletion rt this options w)"
proof (induction "nat (6 - eff (retries options))" arbitrary: options w rule: less_induct)
  case less
  show ?case
  proof (cases "a_miss this options w")
    case False
    then obtain v where "a_enableCaching this" "cache w (a_key this options w) = Some v"
      by (auto simp: a_miss_def)
    then show ?thesis using hit run_hit by metis
  next
    case miss: True
    note unfold = run_miss [OF miss, of rt]
    show ?thesis
    proof (cases "a_answer rt this options w")
      case (Inl m)
      with unfold failed [OF miss Inl] show ?thesis by simp
    next
      case (Inr response)
      show ?thesis
      proof (cases "response_model options")
        case None
        with unfold Inr plain [OF miss Inr None refl] show ?thesis by simp
      next
        case (Some rm)
        from find_isToolUse [of "res_content response"] show ?thesis
        proof
          assume nf: "find isToolUse (res_content response) = None"
          show ?thesis
          proof (cases "mayRetry (retries options)")
            case True
            then have "nat (6 - eff (retries (options\<lparr>retries := Some (nextRetries (retries options))\<rparr>)))
                         < nat (6 - eff (retries options))"
              by (simp add: mayRetry_eff nextRetries_eff eff_def)
            from retry [OF miss Inr Some nf True less.hyps [OF this]]
            show ?thesis using unfold Inr Some nf True by simp
          next
            case False
            with unfold Inr Some nf gave_up [OF miss Inr Some nf False] show ?thesis by simp
          qed
        next
          assume "\<exists>i nm inp. find isToolUse (res_content response) = Some (ToolUseBlock i nm inp)"
          then obtain i nm inp where
            f: "find isToolUse (res_content response) = Some (ToolUseBlock i nm inp)" by blast
          with unfold Inr Some tool [OF miss Inr Some f] show ?thesis by simp
        qed
      qed
    qed
  qed
qed

lemma trace_a_looked:
  "trace (a_looked this options w) =
     trace w @ (if a_enableCaching this then [CacheGet (a_key this options w)] else [])"
  by (simp add: a_looked_def)

lemma trace_a_sent: "trace (a_sent rt this options w) = trace w @ a_events rt this options w"
  by (simp add: a_sent_def a_events_def trace_a_looked)

lemma trace_a_stored:
  "trace (a_stored rt this options w v) =
     trace w @ a_events rt this options w
       @ (if a_enableCaching this then [CacheSet (a_key this options w) v] else [])"
  by (simp add: a_stored_def trace_a_sent)

lemma arrays_a_looked [simp]: "arrays (a_looked this options w) = arrays w"
  by (simp add: a_looked_def)

lemma arrays_a_sent [simp]: "arrays (a_sent rt this options w) = arrays w"
  by (simp add: a_sent_def)

lemma arrays_a_stored [simp]: "arrays (a_stored rt this options w v) = arrays w"
  by (simp add: a_stored_def)

lemma cache_a_looked [simp]: "cache (a_looked this options w) = cache w"
  by (simp add: a_looked_def)

lemma cache_a_sent [simp]: "cache (a_sent rt this options w) = cache w"
  by (simp add: a_sent_def)

lemma cache_a_stored:
  "cache (a_stored rt this options w v) =
     (if a_enableCaching this then (cache w)(a_key this options w \<mapsto> v) else cache w)"
  by (simp add: a_stored_def)

lemma eventsDuring_append [simp]: "trace w' = trace w @ evs \<Longrightarrow> eventsDuring w w' = evs"
  by (simp add: eventsDuring_def)

lemma a_key_sent [simp]:
  "a_key this options' (a_sent rt this options w) = a_key this options' w"
  by (simp add: a_key_def)

lemma run_frame:
  "arrays (snd (AnthropicClient_createChatCompletion rt this options w)) = arrays w \<and>
   (\<exists>evs. trace (snd (AnthropicClient_createChatCompletion rt this options w)) = trace w @ evs)"
proof (induction options w rule: run_induct [where rt = rt and this = this])
  case (retry options w response rm)
  then show ?case by (auto simp: trace_a_sent)
qed (simp_all add: trace_a_looked trace_a_sent trace_a_stored)

lemma vendorCalls_a_events [simp]:
  "length (filter isVendorCall (a_events rt this options w)) = 1"
  by (simp add: a_events_def isVendorCall_def)

lemma vendorCalls_retry:
  assumes "trace w'' = trace (a_sent rt this options w) @ evs"
  shows "vendorCalls w w'' = 1 + vendorCalls (a_sent rt this options w) w''"
proof -
  have "trace w'' = trace w @ (a_events rt this options w @ evs)"
    using assms by (simp add: trace_a_sent)
  then have "eventsDuring w w'' = a_events rt this options w @ evs" by (rule eventsDuring_append)
  moreover have "eventsDuring (a_sent rt this options w) w'' = evs"
    using assms by (rule eventsDuring_append)
  ultimately show ?thesis by (simp add: vendorCalls_def)
qed

lemma vendorCalls_looked [simp]: "vendorCalls w (a_looked this options w) = 0"
  by (simp add: vendorCalls_def trace_a_looked isVendorCall_def eventsDuring_append [of _ _ "if a_enableCaching this then [CacheGet (a_key this options w)] else []"])

lemma vendorCalls_sent [simp]: "vendorCalls w (a_sent rt this options w) = 1"
  by (simp add: vendorCalls_def trace_a_sent eventsDuring_append [of _ _ "a_events rt this options w"])

lemma vendorCalls_stored [simp]: "vendorCalls w (a_stored rt this options w v) = 1"
  by (simp add: vendorCalls_def trace_a_stored isVendorCall_def
        eventsDuring_append [of _ _ "a_events rt this options w
       @ (if a_enableCaching this then [CacheSet (a_key this options w) v] else [])"])

lemma run_bound:
  "vendorCalls w (snd (AnthropicClient_createChatCompletion rt this options w))
     \<le> max 1 (nat (6 - eff (retries options)))"
proof (induction options w rule: run_induct [where rt = rt and this = this])
  case (retry options w response rm)
  let ?o' = "options\<lparr>retries := Some (nextRetries (retries options))\<rparr>"
  let ?w'' = "snd (AnthropicClient_createChatCompletion rt this ?o' (a_sent rt this options w))"
  from run_frame [of rt this ?o' "a_sent rt this options w"] obtain evs where
    "trace ?w'' = trace (a_sent rt this options w) @ evs" by blast
  from vendorCalls_retry [OF this] retry show ?case
    by (simp add: mayRetry_eff nextRetries_eff eff_def)
qed simp_all

lemma neverCached_self: "neverCached this options w \<Longrightarrow> a_miss this options w"
proof -
  assume a: "neverCached this options w"
  have "options\<lparr>retries := retries options\<rparr> = options" by simp
  with a show ?thesis unfolding neverCached_def a_miss_def by metis
qed

lemma run_exact:
  "response_model options \<noteq> None \<Longrightarrow> neverCached this options w \<Longrightarrow> neverUsesTool this \<Longrightarrow>
     fst (AnthropicClient_createChatCompletion rt this options w) = Inl NoToolUseInResponse \<and>
     vendorCalls w (snd (AnthropicClient_createChatCompletion rt this options w))
       = max 1 (nat (6 - eff (retries options)))"
proof (induction options w rule: run_induct [where rt = rt and this = this])
  case (hit options w v)
  from neverCached_self [OF hit(4)] hit(1,2) show ?case by (simp add: a_miss_def)
next
  case (failed options w m)
  then show ?case by (auto simp: neverUsesTool_def a_answer_def) (metis Inl_Inr_False)
next
  case (plain options w response v)
  then show ?case by simp
next
  case (tool options w response rm i nm inp)
  then show ?case by (auto simp: neverUsesTool_def a_answer_def) (metis option.distinct(1) sum.inject(2))
next
  case (gave_up options w response rm)
  then show ?case by (simp add: mayRetry_eff)
next
  case (retry options w response rm)
  let ?o' = "options\<lparr>retries := Some (nextRetries (retries options))\<rparr>"
  let ?w'' = "snd (AnthropicClient_createChatCompletion rt this ?o' (a_sent rt this options w))"
  have nc: "neverCached this ?o' (a_sent rt this options w)"
    using retry.prems(2) by (simp add: neverCached_def)
  from run_frame [of rt this ?o' "a_sent rt this options w"] obtain evs where
    "trace ?w'' = trace (a_sent rt this options w) @ evs" by blast
  from vendorCalls_retry [OF this] retry.IH [OF _ nc retry.prems(3)] retry.hyps retry.prems(1)
  show ?case
    by (simp add: mayRetry_eff nextRetries_eff eff_def)
qed

lemma lookedUp_append [simp]: "lookedUp (xs @ ys) = lookedUp xs @ lookedUp ys"
  by (simp add: lookedUp_def)

lemma lookedUp_simps [simp]:
  "lookedUp [] = []"
  "lookedUp (CacheGet k # evs) = k # lookedUp evs"
  "lookedUp (CacheSet k v # evs) = lookedUp evs"
  "lookedUp (AnthropicCreate rq # evs) = lookedUp evs"
  "lookedUp (OpenAICreate b # evs) = lookedUp evs"
  by (simp_all add: lookedUp_def)

lemma lookedUp_a_events:
  "lookedUp (a_events rt this options w) = (if a_enableCaching this then [a_key this options w] else [])"
  by (simp add: a_events_def)

lemma co_retries_a_key [simp]: "co_retries (a_key this options w) = retries options"
  by (simp add: a_key_def serialise_def anthropic_cacheOptions_def)

lemma a_key_retries:
  "(a_key this (options\<lparr>retries := r\<rparr>) w)\<lparr>co_retries := r'\<rparr> = (a_key this options w)\<lparr>co_retries := r'\<rparr>"
  by (simp add: a_key_def serialise_def anthropic_cacheOptions_def)

lemma attemptRetries_retry:
  "mayRetry r \<Longrightarrow> attemptRetries r = r # attemptRetries (Some (nextRetries r))"
proof -
  assume "mayRetry r"
  then have "eff r + 1 \<le> 5" by (simp add: mayRetry_eff)
  then have "[eff r + 1 .. 5] = (eff r + 1) # [eff r + 1 + 1 .. 5]" by (rule upto_rec1)
  moreover have "eff (Some (nextRetries r)) = eff r + 1" by (simp add: nextRetries_eff eff_def)
  ultimately show ?thesis by (simp add: attemptRetries_def nextRetries_eff)
qed

lemma distinct_attemptRetries: "distinct (attemptRetries r)"
  by (cases r) (auto simp: attemptRetries_def eff_def distinct_map)

lemma set_butlast_append: "set (butlast (xs @ ys)) \<subseteq> set xs \<union> set (butlast ys)"
  by (cases "ys = []") (auto simp: butlast_append dest: in_set_butlastD)

lemma run_events:
  obtains evs where
    "trace (snd (AnthropicClient_createChatCompletion rt this options w)) = trace w @ evs"
    "eventsDuring w (snd (AnthropicClient_createChatCompletion rt this options w)) = evs"
  using run_frame [of rt this options w] eventsDuring_append by blast

lemma run_lookups:
  "a_enableCaching this \<Longrightarrow>
   (let evs = eventsDuring w (snd (AnthropicClient_createChatCompletion rt this options w)) in
      map co_retries (lookedUp evs) = take (length (lookedUp evs)) (attemptRetries (retries options)) \<and>
      lookedUp evs \<noteq> [] \<and> hd (lookedUp evs) = a_key this options w \<and>
      (\<forall>k \<in> set (lookedUp evs). k\<lparr>co_retries := None\<rparr> = (a_key this options w)\<lparr>co_retries := None\<rparr>) \<and>
      (\<forall>e \<in> set (butlast evs). \<not> isCacheSet e))"
proof (induction options w rule: run_induct [where rt = rt and this = this])
  case (hit options w v)
  then show ?case
    by (simp add: eventsDuring_append [of _ _ "[CacheGet (a_key this options w)]"]
          trace_a_looked attemptRetries_def)
next
  case (failed options w m)
  then show ?case
    by (simp add: eventsDuring_append [of _ _ "a_events rt this options w"]
          trace_a_sent a_events_def attemptRetries_def isCacheSet_def)
next
  case (plain options w response v)
  then show ?case
    by (simp add: eventsDuring_append [of _ _ "a_events rt this options w
             @ [CacheSet (a_key this options w) v]"]
          trace_a_stored a_events_def attemptRetries_def isCacheSet_def)
next
  case (tool options w response rm i nm inp)
  then show ?case
    by (simp add: eventsDuring_append [of _ _ "a_events rt this options w
             @ [CacheSet (a_key this options w) (Structured (JObj inp))]"]
          trace_a_stored a_events_def attemptRetries_def isCacheSet_def)
next
  case (gave_up options w response rm)
  then show ?case
    by (simp add: eventsDuring_append [of _ _ "a_events rt this options w"]
          trace_a_sent a_events_def attemptRetries_def isCacheSet_def)
next
  case (retry options w response rm)
  let ?o' = "options\<lparr>retries := Some (nextRetries (retries options))\<rparr>"
  let ?w'' = "snd (AnthropicClient_createChatCompletion rt this ?o' (a_sent rt this options w))"
  obtain evs where evs: "trace ?w'' = trace (a_sent rt this options w) @ evs"
    "eventsDuring (a_sent rt this options w) ?w'' = evs"
    by (rule run_events)
  have all: "eventsDuring w ?w'' = a_events rt this options w @ evs"
    using evs(1) by (simp add: trace_a_sent eventsDuring_append)
  from retry.IH [OF retry.prems] evs(2)
  have ih: "map co_retries (lookedUp evs) = take (length (lookedUp evs)) (attemptRetries (Some (nextRetries (retries options))))"
      "lookedUp evs \<noteq> []"
      "\<forall>k \<in> set (lookedUp evs). k\<lparr>co_retries := None\<rparr> = (a_key this ?o' w)\<lparr>co_retries := None\<rparr>"
      "\<forall>e \<in> set (butlast evs). \<not> isCacheSet e"
    by (simp_all add: Let_def)
  have noset: "\<forall>e \<in> set (a_events rt this options w). \<not> isCacheSet e"
    by (simp add: a_events_def isCacheSet_def)
  have bl: "\<forall>e \<in> set (butlast (a_events rt this options w @ evs)). \<not> isCacheSet e"
    using set_butlast_append [of "a_events rt this options w" evs] noset ih(4) by blast
  show ?case
    unfolding Let_def all
    using ih(1,2,3) bl retry.prems retry.hyps(5)
    by (simp add: lookedUp_a_events attemptRetries_retry a_key_retries)
qed

lemma cache_a_stored_key:
  "a_enableCaching this \<Longrightarrow> cache (a_stored rt this options w v) (a_key this options w) = Some v"
  by (simp add: cache_a_stored)


lemma a_requestId [simp]:
  "a_key this (options\<lparr>requestId := rid\<rparr>) w = a_key this options w"
  "a_looked this (options\<lparr>requestId := rid\<rparr>) w = a_looked this options w"
  "a_request rt this (options\<lparr>requestId := rid\<rparr>) w = a_request rt this options w"
  "a_sent rt this (options\<lparr>requestId := rid\<rparr>) w = a_sent rt this options w"
  "a_answer rt this (options\<lparr>requestId := rid\<rparr>) w = a_answer rt this options w"
  "a_stored rt this (options\<lparr>requestId := rid\<rparr>) w v = a_stored rt this options w v"
  "a_miss this (options\<lparr>requestId := rid\<rparr>) w = a_miss this options w"
  by (simp_all add: a_key_def a_looked_def a_request_def a_sent_def a_answer_def a_stored_def
        a_miss_def anthropic_cacheOptions_def anthropic_request_of_def formattedMessages_def
        anthropicTools_def)

lemma requestId_retries_commute:
  "(options\<lparr>retries := r\<rparr>)\<lparr>requestId := rid\<rparr>
     = (options\<lparr>requestId := rid\<rparr>)\<lparr>retries := r\<rparr>"
  for options :: anthropic_options
  by (cases options) simp

lemma run_requestId:
  "AnthropicClient_createChatCompletion rt this options w =
   AnthropicClient_createChatCompletion rt this (options\<lparr>requestId := rid\<rparr>) w"
proof (induction options w rule: run_induct [where rt = rt and this = this])
  case (hit options w v)
  then show ?case using run_hit [where this = this and options = "options\<lparr>requestId := rid\<rparr>" and w = w and v = v and rt = rt] by simp
next
  case (failed options w m)
  then show ?case using run_miss [where this = this and options = "options\<lparr>requestId := rid\<rparr>" and w = w and rt = rt] by simp
next
  case (plain options w response v)
  then show ?case using run_miss [where this = this and options = "options\<lparr>requestId := rid\<rparr>" and w = w and rt = rt] by simp
next
  case (tool options w response rm i nm inp)
  then show ?case using run_miss [where this = this and options = "options\<lparr>requestId := rid\<rparr>" and w = w and rt = rt] by simp
next
  case (gave_up options w response rm)
  then show ?case using run_miss [where this = this and options = "options\<lparr>requestId := rid\<rparr>" and w = w and rt = rt] by simp
next
  case (retry options w response rm)
  then show ?case using run_miss [where this = this and options = "options\<lparr>requestId := rid\<rparr>" and w = w and rt = rt]
    by (simp add: requestId_retries_commute)
qed

lemma openai_requestId:
  "OpenAIClient_createChatCompletion rt this (options\<lparr>requestId := rid\<rparr>) w =
   OpenAIClient_createChatCompletion rt this options w"
  by (simp add: OpenAIClient_createChatCompletion_def openai_cacheOptions_def cache_get_def
        cache_set_def openai_body_of_def Let_def
        cong: option.case_cong sum.case_cong list.case_cong if_cong)



lemma run_stores:
  "a_enableCaching this \<Longrightarrow>
   \<forall>k v. CacheSet k v \<in> set (eventsDuring w (snd (AnthropicClient_createChatCompletion rt this options w)))
     \<longrightarrow> k = last (lookedUp (eventsDuring w (snd (AnthropicClient_createChatCompletion rt this options w))))"
proof (induction options w rule: run_induct [where rt = rt and this = this])
  case (hit options w v)
  then show ?case
    by (simp add: eventsDuring_append [of _ _ "[CacheGet (a_key this options w)]"] trace_a_looked)
next
  case (failed options w m)
  then show ?case
    by (simp add: eventsDuring_append [of _ _ "a_events rt this options w"]
          trace_a_sent a_events_def)
next
  case (plain options w response v)
  then show ?case
    by (simp add: eventsDuring_append [of _ _ "a_events rt this options w
             @ [CacheSet (a_key this options w) v]"]
          trace_a_stored a_events_def)
next
  case (tool options w response rm i nm inp)
  then show ?case
    by (simp add: eventsDuring_append [of _ _ "a_events rt this options w
             @ [CacheSet (a_key this options w) (Structured (JObj inp))]"]
          trace_a_stored a_events_def)
next
  case (gave_up options w response rm)
  then show ?case
    by (simp add: eventsDuring_append [of _ _ "a_events rt this options w"]
          trace_a_sent a_events_def)
next
  case (retry options w response rm)
  let ?o' = "options\<lparr>retries := Some (nextRetries (retries options))\<rparr>"
  let ?w'' = "snd (AnthropicClient_createChatCompletion rt this ?o' (a_sent rt this options w))"
  obtain evs where evs: "trace ?w'' = trace (a_sent rt this options w) @ evs"
    "eventsDuring (a_sent rt this options w) ?w'' = evs"
    by (rule run_events)
  have all: "eventsDuring w ?w'' = a_events rt this options w @ evs"
    using evs(1) by (simp add: trace_a_sent eventsDuring_append)
  from run_lookups [OF retry.prems(1), of "a_sent rt this options w" rt ?o'] evs(2)
  have ne: "lookedUp evs \<noteq> []" by (simp add: Let_def)
  from retry.IH [OF retry.prems] evs(2) ne show ?case
    by (auto simp: all a_events_def)
qed

lemma attemptRetries_None:
  "attemptRetries None = [None, Some 1, Some 2, Some 3, Some 4, Some 5]"
  by (simp add: attemptRetries_def eff_def upto.simps)

lemma a_request_retries [simp]:
  "a_request rt this (options\<lparr>retries := r\<rparr>) w = a_request rt this options w"
  by (simp add: a_request_def anthropic_request_of_def formattedMessages_def anthropicTools_def)

lemma a_request_sent [simp]:
  "a_request rt this options' (a_sent rt this options w) = a_request rt this options' w"
  by (simp add: a_request_def)

lemma run_requests:
  "\<forall>request. AnthropicCreate request
        \<in> set (eventsDuring w (snd (AnthropicClient_createChatCompletion rt this options w)))
     \<longrightarrow> request = a_request rt this options w"
proof (induction options w rule: run_induct [where rt = rt and this = this])
  case (hit options w v)
  then show ?case
    by (simp add: eventsDuring_append [of _ _ "[CacheGet (a_key this options w)]"] trace_a_looked)
next
  case (failed options w m)
  then show ?case
    by (simp add: eventsDuring_append [of _ _ "a_events rt this options w"]
          trace_a_sent a_events_def)
next
  case (plain options w response v)
  then show ?case
    by (simp add: eventsDuring_append [OF trace_a_stored] a_events_def)
next
  case (tool options w response rm i nm inp)
  then show ?case
    by (simp add: eventsDuring_append [OF trace_a_stored] a_events_def)
next
  case (gave_up options w response rm)
  then show ?case
    by (simp add: eventsDuring_append [of _ _ "a_events rt this options w"]
          trace_a_sent a_events_def)
next
  case (retry options w response rm)
  let ?o' = "options\<lparr>retries := Some (nextRetries (retries options))\<rparr>"
  let ?w'' = "snd (AnthropicClient_createChatCompletion rt this ?o' (a_sent rt this options w))"
  obtain evs where evs: "trace ?w'' = trace (a_sent rt this options w) @ evs"
    "eventsDuring (a_sent rt this options w) ?w'' = evs"
    by (rule run_events)
  have all: "eventsDuring w ?w'' = a_events rt this options w @ evs"
    using evs(1) by (simp add: trace_a_sent eventsDuring_append)
  from retry.IH evs(2) show ?case
    by (auto simp: all a_events_def)
qed

lemma systemMessage_text_only:
  assumes "systemMessage msgs = Some m" and "chat_message.content m = Parts ps"
  shows "list_all (\<lambda>c. case c of ImageUrlPart _ \<Rightarrow> False | TextPart _ \<Rightarrow> True) ps"
  using assms by (auto simp: systemMessage_def find_Some_iff)

lemma carriesImage_formatMessage [simp]: "\<not> carriesImage (formatMessage msg)"
proof (cases "chat_message.content msg")
  case (Text s)
  then show ?thesis by (simp add: carriesImage_def formatMessage_def)
next
  case (Parts ps)
  have "\<not> list_ex (\<lambda>b. case b of Some (ImageBlockParam _ _ _) \<Rightarrow> True | _ \<Rightarrow> False)
          (map formatPart ps)"
    by (induction ps) (auto simp: formatPart_def split: content_part.splits)
  with Parts show ?thesis by (simp add: carriesImage_def formatMessage_def)
qed

lemma carriesImage_screenshotMessage [simp]: "carriesImage (screenshotMessage rt img)"
  by (simp add: carriesImage_def screenshotMessage_def)

lemma filter_carriesImage_formatted:
  "filter carriesImage (formattedMessages rt options msgs) = attachment rt (image options)"
  by (simp add: formattedMessages_def attachment_def filter_empty_conv split: option.splits)

subsection \<open>The OpenAI client\<close>

lemma openai_hit:
  "o_hit this options w \<Longrightarrow>
     \<exists>v. OpenAIClient_createChatCompletion rt this options w
       = (Inr v, w\<lparr>trace := trace w @ [CacheGet (serialise (arrays w) (openai_cacheOptions this options))]\<rparr>)"
  by (auto simp: o_hit_def OpenAIClient_createChatCompletion_def cache_get_def Let_def)

lemma openai_miss_world:
  assumes "\<not> o_hit this options w"
    and "OpenAIClient_createChatCompletion rt this options w = (r, w')"
  shows "arrays w' = arrays (o_pushed rt options w) \<and>
         (\<exists>sets. trace w' = trace w
            @ (if o_enableCaching this
               then [CacheGet (serialise (arrays w) (openai_cacheOptions this options))] else [])
            @ [OpenAICreate (openai_body_of rt this options (arrays w' (messages options)))]
            @ sets \<and>
            (\<forall>e \<in> set sets. \<exists>v. e = CacheSet (serialise (arrays w') (openai_cacheOptions this options)) v))"
  using assms
  by (auto simp: o_hit_def OpenAIClient_createChatCompletion_def cache_get_def cache_set_def
        Let_def o_pushed_def
      split: option.splits sum.splits list.splits if_splits)

subsection \<open>The example clients\<close>

lemma stubborn_exact:
  "fst (AnthropicClient_createChatCompletion example_runtime stubborn_client stars_options fresh_world)
     = Inl NoToolUseInResponse \<and>
   vendorCalls fresh_world
     (snd (AnthropicClient_createChatCompletion example_runtime stubborn_client stars_options
        fresh_world)) = 6"
proof -
  have 1: "response_model stars_options \<noteq> None" by (simp add: stars_options_def)
  have 2: "neverCached stubborn_client stars_options fresh_world"
    by (simp add: neverCached_def fresh_world_def)
  have 3: "neverUsesTool stubborn_client"
    by (simp add: neverUsesTool_def stubborn_client_def text_response_def isToolUse_def)
  have 4: "eff (retries stars_options) = 0" by (simp add: eff_def stars_options_def)
  from run_exact [OF 1 2 3, of example_runtime] 4 show ?thesis by simp
qed



lemma second_try_first:
  "AnthropicClient_createChatCompletion example_runtime second_try_client stars_options fresh_world
     = AnthropicClient_createChatCompletion example_runtime second_try_client
         (stars_options\<lparr>retries := Some 1\<rparr>) first_attempt"
proof -
  have miss: "a_miss second_try_client stars_options fresh_world"
    by (simp add: a_miss_def fresh_world_def)
  have ans: "a_answer example_runtime second_try_client stars_options fresh_world = Inr text_response"
    by (simp add: a_answer_def a_looked_def second_try_client_def fresh_world_def)
  have rm: "response_model stars_options
              = Some \<lparr> name = ''Extraction'', schema = JObj [(''stars'', JStr ''number'')] \<rparr>"
    "retries stars_options = None"
    by (simp_all add: stars_options_def)
  show ?thesis
    by (simp add: run_miss [OF miss] ans rm text_response_def isToolUse_def mayRetry_def
          nextRetries_def first_attempt_def)
qed

lemma trace_first_attempt: "length (trace first_attempt) = 2"
  by (simp add: first_attempt_def trace_a_sent a_events_def second_try_client_def fresh_world_def)

lemma second_try_second:
  "AnthropicClient_createChatCompletion example_runtime second_try_client
         (stars_options\<lparr>retries := Some 1\<rparr>) first_attempt
     = (Inr stars_result,
        a_stored example_runtime second_try_client (stars_options\<lparr>retries := Some 1\<rparr>)
          first_attempt stars_result)"
proof -
  have miss: "a_miss second_try_client (stars_options\<lparr>retries := Some 1\<rparr>) first_attempt"
    by (simp add: a_miss_def first_attempt_def fresh_world_def)
  have ans: "a_answer example_runtime second_try_client (stars_options\<lparr>retries := Some 1\<rparr>)
               first_attempt = Inr tool_response"
    by (simp add: a_answer_def trace_a_looked trace_first_attempt)
       (simp add: second_try_client_def)
  have rm: "response_model (stars_options\<lparr>retries := Some 1\<rparr>)
              = Some \<lparr> name = ''Extraction'', schema = JObj [(''stars'', JStr ''number'')] \<rparr>"
    by (simp add: stars_options_def)
  show ?thesis
    by (simp add: run_miss [OF miss] ans rm tool_response_def isToolUse_def stars_result_def)
qed

lemma second_try_run:
  "AnthropicClient_createChatCompletion example_runtime second_try_client stars_options fresh_world
     = (Inr stars_result,
        a_stored example_runtime second_try_client (stars_options\<lparr>retries := Some 1\<rparr>)
          first_attempt stars_result)"
  by (simp add: second_try_first second_try_second)


lemma second_try_events:
  "eventsDuring fresh_world
     (snd (AnthropicClient_createChatCompletion example_runtime second_try_client stars_options
        fresh_world))
   = [CacheGet (a_key second_try_client stars_options fresh_world),
      AnthropicCreate (a_request example_runtime second_try_client stars_options fresh_world),
      CacheGet (a_key second_try_client (stars_options\<lparr>retries := Some 1\<rparr>) fresh_world),
      AnthropicCreate (a_request example_runtime second_try_client stars_options fresh_world),
      CacheSet (a_key second_try_client (stars_options\<lparr>retries := Some 1\<rparr>) fresh_world)
        stars_result]"
proof -
  have c: "a_enableCaching second_try_client" by (simp add: second_try_client_def)
  have "trace (a_stored example_runtime second_try_client (stars_options\<lparr>retries := Some 1\<rparr>)
          first_attempt stars_result)
        = trace fresh_world @
          [CacheGet (a_key second_try_client stars_options fresh_world),
      AnthropicCreate (a_request example_runtime second_try_client stars_options fresh_world),
      CacheGet (a_key second_try_client (stars_options\<lparr>retries := Some 1\<rparr>) fresh_world),
      AnthropicCreate (a_request example_runtime second_try_client stars_options fresh_world),
      CacheSet (a_key second_try_client (stars_options\<lparr>retries := Some 1\<rparr>) fresh_world)
        stars_result]"
    using c by (simp add: trace_a_stored first_attempt_def trace_a_sent a_events_def)
  then show ?thesis
    unfolding second_try_run snd_conv by (rule eventsDuring_append)
qed

lemma gpt_serialise:
  "serialise store (openai_cacheOptions gpt_client gpt_options) = gpt_key (store 0)"
  by (simp add: serialise_def openai_cacheOptions_def gpt_client_def gpt_options_def gpt_key_def)

lemma gpt_first_call:
  "OpenAIClient_createChatCompletion example_runtime gpt_client gpt_options fresh_world =
     (Inr stars_result,
      \<lparr> arrays = (arrays fresh_world)
           (0 := stars_messages @ [openai_screenshotMessage example_runtime screenshot]),
        cache = [gpt_key (stars_messages @ [openai_screenshotMessage example_runtime screenshot])
                   \<mapsto> stars_result],
        trace = [CacheGet (gpt_key stars_messages),
                 OpenAICreate (openai_body_of example_runtime gpt_client gpt_options
                    (stars_messages @ [openai_screenshotMessage example_runtime screenshot])),
                 CacheSet (gpt_key (stars_messages
                    @ [openai_screenshotMessage example_runtime screenshot])) stars_result] \<rparr>)"
proof -
  have opts: "o_enableCaching gpt_client" "messages gpt_options = 0"
    "image gpt_options = Some screenshot"
    "response_model gpt_options
       = Some \<lparr> name = ''Extraction'', schema = JObj [(''stars'', JStr ''number'')] \<rparr>"
    "requestId gpt_options = Some ''req-1''"
    "chat_completions_create gpt_client
       = (\<lambda>n body. Inr \<lparr> cc_id = ''chatcmpl-1'', cc_choices = [Some stars_json] \<rparr>)"
    by (simp_all add: gpt_client_def gpt_options_def)
  have rt: "JSON_parse example_runtime (Some stars_json) = Inr (JObj [(''stars'', JNum 1000)])"
    "object_spread example_runtime (JObj [(''stars'', JNum 1000)]) = JObj [(''stars'', JNum 1000)]"
    by (simp_all add: example_runtime_def)
  show ?thesis
    by (simp add: OpenAIClient_createChatCompletion_def cache_get_def cache_set_def Let_def
          gpt_serialise opts rt stars_result_def fresh_world_def)
qed

lemma after_first_call:
  "arrays after_first_call 0
     = stars_messages @ [openai_screenshotMessage example_runtime screenshot]"
  "cache after_first_call
     = [gpt_key (stars_messages @ [openai_screenshotMessage example_runtime screenshot])
          \<mapsto> stars_result]"
  by (simp_all add: after_first_call_def gpt_first_call)

lemma gpt_second_call:
  "OpenAIClient_createChatCompletion example_runtime gpt_client gpt_options after_first_call =
     (Inr stars_result,
      after_first_call\<lparr>trace := trace after_first_call
         @ [CacheGet (gpt_key (stars_messages
              @ [openai_screenshotMessage example_runtime screenshot]))]\<rparr>)"
proof -
  have opts: "o_enableCaching gpt_client" "requestId gpt_options = Some ''req-1''"
    by (simp_all add: gpt_client_def gpt_options_def)
  show ?thesis
    by (simp add: OpenAIClient_createChatCompletion_def cache_get_def Let_def
          gpt_serialise opts after_first_call)
qed

subsection \<open>The retry bound\<close>

text \<open>
  C4, as stated, fails: a model that never invokes a tool is asked six times, not five,
  before the call fails with "No tool use with input in response". The counter starts
  undefined, the retries carry the values 1 to 5, and \<open>retries < 5\<close> lets the attempt
  with \<open>retries = 4\<close> retry once more.
\<close>

theorem anthropic_attempts_counterexample:
  "fst (AnthropicClient_createChatCompletion example_runtime stubborn_client stars_options fresh_world)
     = Inl NoToolUseInResponse \<and>
   vendorCalls fresh_world
     (snd (AnthropicClient_createChatCompletion example_runtime stubborn_client stars_options
        fresh_world)) = 6"
  using stubborn_exact by simp

text \<open>
  C4, amended. A call that starts without \<open>retries\<close> makes at most six vendor calls,
  whatever the vendor answers. If a response model is given, no attempt is served from
  the cache, and every answer of the vendor lacks a \<open>tool_use\<close> block, it makes exactly
  six (the first attempt and five retries) and then fails with the no-tool-use error.
\<close>

theorem anthropic_attempts:
  assumes "retries options = None"
  shows "vendorCalls w (snd (AnthropicClient_createChatCompletion rt this options w)) \<le> 6 \<and>
         (response_model options \<noteq> None \<and> neverCached this options w \<and> neverUsesTool this \<longrightarrow>
            fst (AnthropicClient_createChatCompletion rt this options w) = Inl NoToolUseInResponse \<and>
            vendorCalls w (snd (AnthropicClient_createChatCompletion rt this options w)) = 6)"
proof -
  have e: "eff (retries options) = 0" using assms by (simp add: eff_def)
  from run_bound [of w rt this options] run_exact [of options this w rt] e show ?thesis
    by simp
qed

text \<open>The amended C4 for the client whose model never invokes a tool.\<close>

theorem anthropic_attempts_witness:
  "retries stars_options = None \<and> response_model stars_options \<noteq> None \<and>
   neverCached stubborn_client stars_options fresh_world \<and> neverUsesTool stubborn_client \<and>
   fst (AnthropicClient_createChatCompletion example_runtime stubborn_client stars_options fresh_world)
     = Inl NoToolUseInResponse \<and>
   vendorCalls fresh_world
     (snd (AnthropicClient_createChatCompletion example_runtime stubborn_client stars_options
        fresh_world)) = 6"
proof -
  have 0: "retries stars_options = None" by (simp add: stars_options_def)
  have 1: "response_model stars_options \<noteq> None" by (simp add: stars_options_def)
  have 2: "neverCached stubborn_client stars_options fresh_world"
    by (simp add: neverCached_def fresh_world_def)
  have 3: "neverUsesTool stubborn_client"
    by (simp add: neverUsesTool_def stubborn_client_def text_response_def isToolUse_def)
  from anthropic_attempts [OF 0, of fresh_world example_runtime stubborn_client] 0 1 2 3
  show ?thesis by simp
qed

subsection \<open>The request id and the cache key\<close>

text \<open>
  C6. Two requests that differ only in \<open>requestId\<close> give the same \<open>cacheOptions\<close> in
  both clients, hence the same outcome of the cache read; and, the request id being
  absent from the vendor request as well, the whole call has the same result and leaves
  the same world.
\<close>

theorem requestId_not_in_cache_key:
  "anthropic_cacheOptions this (options\<lparr>requestId := rid\<rparr>) = anthropic_cacheOptions this options \<and>
   openai_cacheOptions that (options'\<lparr>requestId := rid\<rparr>) = openai_cacheOptions that options' \<and>
   fst (cache_get (anthropic_cacheOptions this (options\<lparr>requestId := rid\<rparr>)) rid w)
     = fst (cache_get (anthropic_cacheOptions this options) (requestId options) w) \<and>
   fst (cache_get (openai_cacheOptions that (options'\<lparr>requestId := rid\<rparr>)) rid w)
     = fst (cache_get (openai_cacheOptions that options') (requestId options') w) \<and>
   AnthropicClient_createChatCompletion rt this (options\<lparr>requestId := rid\<rparr>) w
     = AnthropicClient_createChatCompletion rt this options w \<and>
   OpenAIClient_createChatCompletion rt that (options'\<lparr>requestId := rid\<rparr>) w
     = OpenAIClient_createChatCompletion rt that options' w"
  using run_requestId [of rt this options w rid] openai_requestId [of rt that rid options' w]
  by (simp add: anthropic_cacheOptions_def openai_cacheOptions_def cache_get_def Let_def)

text \<open>C6 for the example clients and the request ids \<open>req-1\<close> and \<open>req-2\<close>.\<close>

theorem requestId_not_in_cache_key_witness:
  "requestId (stars_options\<lparr>requestId := Some ''req-2''\<rparr>) \<noteq> requestId stars_options \<and>
   anthropic_cacheOptions second_try_client (stars_options\<lparr>requestId := Some ''req-2''\<rparr>)
     = anthropic_cacheOptions second_try_client stars_options \<and>
   fst (AnthropicClient_createChatCompletion example_runtime second_try_client
          (stars_options\<lparr>requestId := Some ''req-2''\<rparr>) fresh_world) = Inr stars_result \<and>
   OpenAIClient_createChatCompletion example_runtime gpt_client
          (gpt_options\<lparr>requestId := Some ''req-2''\<rparr>) fresh_world
     = OpenAIClient_createChatCompletion example_runtime gpt_client gpt_options fresh_world"
  using requestId_not_in_cache_key [where this = second_try_client and options = stars_options
      and rid = "Some ''req-2''" and that = gpt_client and options' = gpt_options
      and w = fresh_world and rt = example_runtime]
  by (simp add: second_try_run) (simp add: stars_options_def)

subsection \<open>Reading and writing the cache\<close>




subsection \<open>The retry counter in the cache key\<close>

text \<open>
  C8. \<open>cacheOptions.retries\<close> is \<open>options.retries\<close>. In a call that starts without
  \<open>retries\<close>, the fingerprints looked up carry \<open>retries\<close> undefined, 1, 2, ... in this
  order, are pairwise distinct and agree on every other field; a \<open>cache.set\<close> is the last
  event of the call, so no attempt looks up an entry that an earlier attempt of the call
  wrote, and it writes under the last fingerprint looked up.
\<close>

theorem anthropic_retries_in_cache_key:
  assumes "a_enableCaching this" and "retries options = None"
  shows "co_retries (anthropic_cacheOptions this options) = retries options \<and>
         map co_retries (lookedUp (eventsDuring w
              (snd (AnthropicClient_createChatCompletion rt this options w))))
           = take (length (lookedUp (eventsDuring w
                (snd (AnthropicClient_createChatCompletion rt this options w)))))
               [None, Some 1, Some 2, Some 3, Some 4, Some 5] \<and>
         distinct (lookedUp (eventsDuring w
              (snd (AnthropicClient_createChatCompletion rt this options w)))) \<and>
         (\<forall>k \<in> set (lookedUp (eventsDuring w
              (snd (AnthropicClient_createChatCompletion rt this options w)))).
            k\<lparr>co_retries := None\<rparr> = a_key this options w) \<and>
         (\<forall>e \<in> set (butlast (eventsDuring w
              (snd (AnthropicClient_createChatCompletion rt this options w)))). \<not> isCacheSet e) \<and>
         (\<forall>k v. CacheSet k v \<in> set (eventsDuring w
              (snd (AnthropicClient_createChatCompletion rt this options w)))
            \<longrightarrow> k = last (lookedUp (eventsDuring w
              (snd (AnthropicClient_createChatCompletion rt this options w)))))"
proof -
  let ?ks = "lookedUp (eventsDuring w (snd (AnthropicClient_createChatCompletion rt this options w)))"
  from run_lookups [OF assms(1), of w rt options] assms(2)
  have m: "map co_retries ?ks = take (length ?ks) [None, Some 1, Some 2, Some 3, Some 4, Some 5]"
    and same: "\<forall>k \<in> set ?ks. k\<lparr>co_retries := None\<rparr> = (a_key this options w)\<lparr>co_retries := None\<rparr>"
    and sets: "\<forall>e \<in> set (butlast (eventsDuring w
              (snd (AnthropicClient_createChatCompletion rt this options w)))). \<not> isCacheSet e"
    by (simp_all add: Let_def attemptRetries_None)
  have "distinct (map co_retries ?ks)"
    unfolding m by (rule distinct_take) simp
  then have d: "distinct ?ks" by (simp add: distinct_map)
  have "co_retries (a_key this options w) = None" using assms(2) by simp
  then have k: "(a_key this options w)\<lparr>co_retries := None\<rparr> = a_key this options w"
    by (cases "a_key this options w") simp
  show ?thesis
    using m d same sets run_stores [OF assms(1), of w rt options]
    by (simp add: k anthropic_cacheOptions_def)
qed

text \<open>C8 for the client that succeeds at its second attempt.\<close>

theorem anthropic_retries_in_cache_key_witness:
  "a_enableCaching second_try_client \<and> retries stars_options = None \<and>
   map co_retries (lookedUp (eventsDuring fresh_world
      (snd (AnthropicClient_createChatCompletion example_runtime second_try_client stars_options
         fresh_world)))) = [None, Some 1] \<and>
   distinct (lookedUp (eventsDuring fresh_world
      (snd (AnthropicClient_createChatCompletion example_runtime second_try_client stars_options
         fresh_world))))"
proof -
  have c: "a_enableCaching second_try_client" by (simp add: second_try_client_def)
  have n: "retries stars_options = None" by (simp add: stars_options_def)
  have l: "length (lookedUp (eventsDuring fresh_world
      (snd (AnthropicClient_createChatCompletion example_runtime second_try_client stars_options
         fresh_world)))) = 2"
    by (simp add: second_try_events)
  from anthropic_retries_in_cache_key [OF c n, of fresh_world example_runtime] c n
  show ?thesis unfolding l by simp
qed

subsection \<open>Image parts in the Anthropic client\<close>

text \<open>
  C9. Every request the Anthropic client sends holds the non-system messages, formatted,
  followed by the turn for \<open>options.image\<close> if there is one. A message whose content is
  an array is formatted part by part: a text part becomes a text block, an image part
  becomes \<open>undefined\<close>. So the messages of the request that carry an image block are
  exactly the turn for \<open>options.image\<close>; and the \<open>system\<close> field, when it is an array,
  has text parts only.
\<close>

theorem anthropic_forwards_text_parts_only:
  "\<forall>request. AnthropicCreate request
       \<in> set (eventsDuring w (snd (AnthropicClient_createChatCompletion rt this options w)))
     \<longrightarrow> req_messages request
           = map formatMessage (filter (\<lambda>msg. role msg \<noteq> System) (arrays w (messages options)))
             @ attachment rt (image options) \<and>
         (\<forall>msg \<in> set (arrays w (messages options)). \<forall>ps.
             role msg \<noteq> System \<and> chat_message.content msg = Parts ps \<longrightarrow>
             formatMessage msg
               = MessageParam (role msg)
                   (BlockContent (map (\<lambda>c. case c of TextPart t \<Rightarrow> Some (TextBlockParam t)
                                                   | ImageUrlPart u \<Rightarrow> None) ps))) \<and>
         filter carriesImage (req_messages request) = attachment rt (image options) \<and>
         (\<forall>ps. req_system request = Some (Parts ps) \<longrightarrow>
            list_all (\<lambda>c. case c of ImageUrlPart _ \<Rightarrow> False | TextPart _ \<Rightarrow> True) ps)"
proof (intro allI impI)
  fix request
  assume "AnthropicCreate request
       \<in> set (eventsDuring w (snd (AnthropicClient_createChatCompletion rt this options w)))"
  with run_requests [of w rt this options]
  have rq: "request = a_request rt this options w" by blast
  then have r: "req_messages request = formattedMessages rt options (arrays w (messages options))"
    by (simp add: a_request_def anthropic_request_of_def)
  have s: "req_system request
             = map_option chat_message.content (systemMessage (arrays w (messages options)))"
    using rq by (simp add: a_request_def anthropic_request_of_def)
  have f: "formatPart = (\<lambda>c. case c of TextPart t \<Rightarrow> Some (TextBlockParam t)
                                     | ImageUrlPart u \<Rightarrow> None)"
    by (rule ext) (simp add: formatPart_def)
  have sys: "\<forall>ps. req_system request = Some (Parts ps) \<longrightarrow>
            list_all (\<lambda>c. case c of ImageUrlPart _ \<Rightarrow> False | TextPart _ \<Rightarrow> True) ps"
    unfolding s using systemMessage_text_only by auto
  show "req_messages request
           = map formatMessage (filter (\<lambda>msg. role msg \<noteq> System) (arrays w (messages options)))
             @ attachment rt (image options) \<and>
         (\<forall>msg \<in> set (arrays w (messages options)). \<forall>ps.
             role msg \<noteq> System \<and> chat_message.content msg = Parts ps \<longrightarrow>
             formatMessage msg
               = MessageParam (role msg)
                   (BlockContent (map (\<lambda>c. case c of TextPart t \<Rightarrow> Some (TextBlockParam t)
                                                   | ImageUrlPart u \<Rightarrow> None) ps))) \<and>
         filter carriesImage (req_messages request) = attachment rt (image options) \<and>
         (\<forall>ps. req_system request = Some (Parts ps) \<longrightarrow>
            list_all (\<lambda>c. case c of ImageUrlPart _ \<Rightarrow> False | TextPart _ \<Rightarrow> True) ps)"
    unfolding r filter_carriesImage_formatted
    using sys
    by (simp add: formattedMessages_def userMessages_def attachment_def formatMessage_def f)
qed

text \<open>C9 for a user turn with a text part and an image part, and an image in the options.\<close>

theorem anthropic_forwards_text_parts_only_witness:
  "AnthropicCreate (a_request example_runtime second_try_client stars_options fresh_world)
     \<in> set (eventsDuring fresh_world
         (snd (AnthropicClient_createChatCompletion example_runtime second_try_client stars_options
            fresh_world))) \<and>
   req_messages (a_request example_runtime second_try_client stars_options fresh_world)
     = [MessageParam User (BlockContent [Some (TextBlockParam ''How many stars?''), None]),
        screenshotMessage example_runtime screenshot] \<and>
   filter carriesImage
      (req_messages (a_request example_runtime second_try_client stars_options fresh_world))
     = [screenshotMessage example_runtime screenshot] \<and>
   req_system (a_request example_runtime second_try_client stars_options fresh_world)
     = Some (Text ''Extract what the user asks for.'')"
proof -
  have sys: "req_system (a_request example_runtime second_try_client stars_options fresh_world)
         = Some (Text ''Extract what the user asks for.'')"
    by (simp add: a_request_def anthropic_request_of_def systemMessage_def fresh_world_def
          stars_options_def stars_messages_def)
  have sent: "AnthropicCreate (a_request example_runtime second_try_client stars_options fresh_world)
     \<in> set (eventsDuring fresh_world
         (snd (AnthropicClient_createChatCompletion example_runtime second_try_client stars_options
            fresh_world)))"
    by (simp add: second_try_events)
  have msgs: "arrays fresh_world (messages stars_options) = stars_messages"
    "attachment example_runtime (image stars_options) = [screenshotMessage example_runtime screenshot]"
    by (simp_all add: fresh_world_def stars_options_def attachment_def)
  from anthropic_forwards_text_parts_only [of fresh_world example_runtime second_try_client
      stars_options] sent sys
  show ?thesis
    by (simp add: msgs) (simp add: stars_messages_def formatMessage_def)
qed

subsection \<open>The OpenAI client writes to the caller's array\<close>

text \<open>
  C10, as stated, fails when the call is answered by the cache read. The model answers
  with the JSON text \<open>{"stars": 1000}\<close>. A first call misses the cache, pushes the
  screenshot message (the array grows from 3 to 4 messages), parses the answer and
  writes the entry; \<open>cacheOptions.messages\<close> is the caller's array, so the entry is under
  the fingerprint of the 4 messages. A second call with the same options object looks
  up that fingerprint, finds the entry, returns it at line 436, and leaves the array
  with its 4 messages although \<open>options.image\<close> is present.
\<close>

theorem openai_cache_hit_counterexample:
  "image gpt_options = Some screenshot \<and>
   length (arrays fresh_world (messages gpt_options)) = 3 \<and>
   fst (OpenAIClient_createChatCompletion example_runtime gpt_client gpt_options fresh_world)
     = Inr stars_result \<and>
   after_first_call
     = snd (OpenAIClient_createChatCompletion example_runtime gpt_client gpt_options fresh_world) \<and>
   length (arrays after_first_call (messages gpt_options)) = 4 \<and>
   fst (OpenAIClient_createChatCompletion example_runtime gpt_client gpt_options after_first_call)
     = Inr stars_result \<and>
   arrays (snd (OpenAIClient_createChatCompletion example_runtime gpt_client gpt_options
                  after_first_call)) (messages gpt_options)
     = arrays after_first_call (messages gpt_options)"
proof -
  have m: "messages gpt_options = 0" "image gpt_options = Some screenshot"
    by (simp_all add: gpt_options_def)
  have three: "length (arrays fresh_world 0) = 3"
    by (simp add: fresh_world_def stars_messages_def)
  have four: "length (arrays after_first_call 0) = 4"
    by (simp add: after_first_call stars_messages_def)
  have first: "fst (OpenAIClient_createChatCompletion example_runtime gpt_client gpt_options
                      fresh_world) = Inr stars_result"
    by (simp add: gpt_first_call)
  have second: "fst (OpenAIClient_createChatCompletion example_runtime gpt_client gpt_options
                       after_first_call) = Inr stars_result"
    "arrays (snd (OpenAIClient_createChatCompletion example_runtime gpt_client gpt_options
                  after_first_call)) 0 = arrays after_first_call 0"
    by (simp_all add: gpt_second_call)
  show ?thesis
    unfolding m using three four first second after_first_call_def by blast
qed

text \<open>
  C10, amended. After a call of the OpenAI client the caller's array is the array before
  the call followed by the screenshot message, if \<open>options.image\<close> is present and the
  call was not answered by the cache read (which returns before line 452); otherwise it
  is unchanged, and so is every other array. The cache read saw the array as it was; the
  vendor call and the cache write saw it with the message appended.
\<close>

theorem openai_pushes_screenshot:
  assumes "OpenAIClient_createChatCompletion rt this options w = (r, w')"
  shows "arrays w' (messages options)
           = arrays w (messages options)
             @ (case image options of
                  None \<Rightarrow> []
                | Some img \<Rightarrow> if o_hit this options w then [] else [openai_screenshotMessage rt img]) \<and>
         (\<forall>a. a \<noteq> messages options \<longrightarrow> arrays w' a = arrays w a) \<and>
         (\<forall>e \<in> set (eventsDuring w w').
            case e of
              CacheGet k \<Rightarrow> co_messages k = arrays w (messages options)
            | OpenAICreate body \<Rightarrow>
                body_messages body = map openai_formatMessage (arrays w' (messages options))
            | CacheSet k v \<Rightarrow> co_messages k = arrays w' (messages options)
            | AnthropicCreate request \<Rightarrow> False)"
proof (cases "o_hit this options w")
  case True
  from openai_hit [OF True, of rt] assms
  have w': "w' = w\<lparr>trace := trace w @ [CacheGet (serialise (arrays w) (openai_cacheOptions this options))]\<rparr>"
    by auto
  have "eventsDuring w w' = [CacheGet (serialise (arrays w) (openai_cacheOptions this options))]"
    by (rule eventsDuring_append) (simp add: w')
  then show ?thesis
    using True by (simp add: w' serialise_def openai_cacheOptions_def split: option.splits)
next
  case False
  from openai_miss_world [OF False assms] obtain sets where
    a: "arrays w' = arrays (o_pushed rt options w)"
    and t: "trace w' = trace w
            @ ((if o_enableCaching this
               then [CacheGet (serialise (arrays w) (openai_cacheOptions this options))] else [])
            @ [OpenAICreate (openai_body_of rt this options (arrays w' (messages options)))]
            @ sets)"
    and s: "\<forall>e \<in> set sets. \<exists>v. e = CacheSet (serialise (arrays w') (openai_cacheOptions this options)) v"
    by auto
  have k: "co_messages (serialise store (openai_cacheOptions this options)) = store (messages options)"
    for store
    by (simp add: serialise_def openai_cacheOptions_def)
  have b: "body_messages (openai_body_of rt this options msgs) = map openai_formatMessage msgs"
    for msgs
    by (simp add: openai_body_of_def)
  from s have s': "\<forall>e \<in> set sets. case e of
              CacheGet k \<Rightarrow> co_messages k = arrays w (messages options)
            | OpenAICreate body \<Rightarrow>
                body_messages body = map openai_formatMessage (arrays w' (messages options))
            | CacheSet k v \<Rightarrow> co_messages k = arrays w' (messages options)
            | AnthropicCreate request \<Rightarrow> False"
    by (auto simp: k)
  show ?thesis
    unfolding eventsDuring_append [OF t]
    using False s' by (auto simp: a o_pushed_def k b split: option.splits)
qed

text \<open>The amended C10 for the example client, with and without an image.\<close>

theorem openai_pushes_screenshot_witness:
  "arrays (snd (OpenAIClient_createChatCompletion example_runtime gpt_client gpt_options
             fresh_world)) (messages gpt_options)
     = stars_messages @ [openai_screenshotMessage example_runtime screenshot] \<and>
   arrays fresh_world (messages gpt_options) = stars_messages \<and>
   arrays (snd (OpenAIClient_createChatCompletion example_runtime gpt_client
             (gpt_options\<lparr>image := None\<rparr>) fresh_world)) (messages gpt_options)
     = stars_messages"
proof -
  obtain r w' where run:
    "OpenAIClient_createChatCompletion example_runtime gpt_client gpt_options fresh_world = (r, w')"
    by (cases "OpenAIClient_createChatCompletion example_runtime gpt_client gpt_options fresh_world")
  obtain r2 w2 where run2:
    "OpenAIClient_createChatCompletion example_runtime gpt_client (gpt_options\<lparr>image := None\<rparr>)
       fresh_world = (r2, w2)"
    by (cases "OpenAIClient_createChatCompletion example_runtime gpt_client
          (gpt_options\<lparr>image := None\<rparr>) fresh_world")
  have nohit: "\<not> o_hit gpt_client gpt_options fresh_world"
    by (simp add: o_hit_def fresh_world_def)
  have facts: "arrays fresh_world (messages gpt_options) = stars_messages"
    "image gpt_options = Some screenshot" "messages (gpt_options\<lparr>image := None\<rparr>) = messages gpt_options"
    by (simp_all add: fresh_world_def gpt_options_def)
  from openai_pushes_screenshot [OF run] openai_pushes_screenshot [OF run2] nohit facts
  show ?thesis by (simp add: run run2)
qed

end
